theory Spec2Isabelle
  imports Complex_Main
begin

section \<open>Values, errors and rows\<close>

text \<open>
  A request value after JavaScript's \<open>Number(...)\<close>: either a finite number or
  \<open>NaN\<close> (which also stands for the infinities: none of them is an integer).
\<close>

datatype jsNumber = NaN | Num rat

text \<open>
  What a controller can throw: an \<open>ApiError\<close> with its HTTP status and machine code
  (the message text is left out), or an error raised by the Prisma client, named by its
  code (\<open>P2002\<close> unique constraint, \<open>P2003\<close> foreign key, \<open>P2025\<close> record not found),
  which the error handler renders as status 500.
\<close>

datatype err = ApiError nat string | PrismaError string

datatype cartStatus = ACTIVE | CHECKED_OUT | ABANDONED

datatype orderStatus = PENDING | PAID | SHIPPED | COMPLETED | CANCELLED | REFUNDED

datatype paymentStatus = UNPAID | PAYMENT_PAID | PAYMENT_REFUNDED | FAILED

text \<open>
  Table rows. Timestamps are natural numbers; a nullable \<open>deletedAt\<close> is an option.
  Decimal columns (price, unitPrice, totalAmount, avgRating) are exact rationals.
  The \<open>Book\<close> table is keyed by its primary key, so a book row does not repeat its id.
  Columns that none of the controllers below reads are left out (among them the
  \<open>updatedAt\<close> that the client maintains on books, carts, orders, reviews and
  comments, and a comment's \<open>parentId\<close>), and so are the length limits of the text
  columns and the \<open>User\<close> table: an authenticated user id is taken to exist.
\<close>

record book =
  bookTitle :: string
  bookPrice :: rat
  bookStock :: int
  bookDeletedAt :: "nat option"
  bookAvgRating :: rat
  bookReviewCount :: int

record cart =
  cartId :: nat
  cartUserId :: nat
  cartStatus :: cartStatus
  cartCreatedAt :: nat

record cartItem =
  ciCartId :: nat
  ciBookId :: nat
  ciQuantity :: int
  ciUnitPrice :: rat
  ciCreatedAt :: nat
  ciUpdatedAt :: nat

record orderRow =
  orderId :: nat
  orderUserId :: nat
  orderCartId :: "nat option"
  orderStatus :: orderStatus
  orderPaymentStatus :: paymentStatus
  orderTotalAmount :: rat
  orderPlacedAt :: "nat option"
  orderCreatedAt :: nat

record orderItem =
  oiOrderId :: nat
  oiBookId :: nat
  oiQuantity :: int
  oiUnitPrice :: rat
  oiBookTitleSnapshot :: string

record review =
  reviewId :: nat
  reviewBookId :: nat
  reviewUserId :: nat
  reviewRating :: int
  reviewTitle :: "string option"
  reviewContent :: string
  reviewLikeCount :: int
  reviewCommentCount :: int
  reviewCreatedAt :: nat
  reviewDeletedAt :: "nat option"

record comment =
  commentId :: nat
  commentReviewId :: nat
  commentUserId :: nat
  commentContent :: string
  commentLikeCount :: int
  commentCreatedAt :: nat
  commentDeletedAt :: "nat option"

text \<open>
  The database: one list of rows per table, in insertion order, with the
  auto-increment counters. Like rows are the pairs (userId, targetId).
\<close>

record db =
  books :: "nat \<rightharpoonup> book"
  carts :: "cart list"
  nextCartId :: nat
  cartItems :: "cartItem list"
  orders :: "orderRow list"
  nextOrderId :: nat
  orderItems :: "orderItem list"
  reviews :: "review list"
  nextReviewId :: nat
  reviewLikes :: "(nat \<times> nat) list"
  comments :: "comment list"
  nextCommentId :: nat
  commentLikes :: "(nat \<times> nat) list"

section \<open>The storage collaborator\<close>

text \<open>
  The Prisma calls the controllers make, as functions on the database. \<open>findFirst\<close>
  and \<open>findUnique\<close> return the first matching row in table order; \<open>create\<close> appends
  a row, taking an auto-increment id from the table's counter, and raises when a primary
  key, unique index or foreign key is violated; \<open>update\<close> raises when no row has the
  key. A call outside a transaction commits by itself.

  \<open>prisma.$transaction(async (tx) => ...)\<close>: the body either returns, and its writes
  are committed, or throws, and the database is left as it was.
\<close>

definition transaction :: "(db \<Rightarrow> err + db \<times> 'a) \<Rightarrow> db \<Rightarrow> db \<times> (err + 'a)" where
  "transaction body d = (case body d of Inl e \<Rightarrow> (d, Inl e) | Inr (d', r) \<Rightarrow> (d', Inr r))"

definition cart_findFirstActive :: "nat \<Rightarrow> db \<Rightarrow> cart option" where
  "cart_findFirstActive userId d =
     find (\<lambda>c. cartUserId c = userId \<and> cartStatus c = ACTIVE) (carts d)"

definition cart_create :: "nat \<Rightarrow> nat \<Rightarrow> db \<Rightarrow> db \<times> cart" where
  "cart_create userId now d =
     (let c = \<lparr> cartId = nextCartId d, cartUserId = userId, cartStatus = ACTIVE,
                 cartCreatedAt = now \<rparr>
      in (d\<lparr> carts := carts d @ [c], nextCartId := Suc (nextCartId d) \<rparr>, c))"

definition cart_update :: "nat \<Rightarrow> (cart \<Rightarrow> cart) \<Rightarrow> db \<Rightarrow> err + db" where
  "cart_update cid f d =
     (if \<exists>c \<in> set (carts d). cartId c = cid
      then Inr (d\<lparr> carts := map (\<lambda>c. if cartId c = cid then f c else c) (carts d) \<rparr>)
      else Inl (PrismaError ''P2025''))"

definition book_findFirstLive :: "nat \<Rightarrow> db \<Rightarrow> book option" where
  "book_findFirstLive bid d =
     (case books d bid of
        None \<Rightarrow> None
      | Some bk \<Rightarrow> if bookDeletedAt bk = None then Some bk else None)"

definition book_update :: "nat \<Rightarrow> (book \<Rightarrow> book) \<Rightarrow> db \<Rightarrow> err + db" where
  "book_update bid f d =
     (case books d bid of
        None \<Rightarrow> Inl (PrismaError ''P2025'')
      | Some bk \<Rightarrow> Inr (d\<lparr> books := (books d)(bid \<mapsto> f bk) \<rparr>))"

definition cartItem_findUnique :: "nat \<Rightarrow> nat \<Rightarrow> db \<Rightarrow> cartItem option" where
  "cartItem_findUnique cid bid d =
     find (\<lambda>it. ciCartId it = cid \<and> ciBookId it = bid) (cartItems d)"

definition cartItem_create :: "cartItem \<Rightarrow> db \<Rightarrow> err + db" where
  "cartItem_create x d =
     (if \<exists>it \<in> set (cartItems d). ciCartId it = ciCartId x \<and> ciBookId it = ciBookId x
      then Inl (PrismaError ''P2002'')
      else Inr (d\<lparr> cartItems := cartItems d @ [x] \<rparr>))"

definition cartItem_update :: "nat \<Rightarrow> nat \<Rightarrow> (cartItem \<Rightarrow> cartItem) \<Rightarrow> db \<Rightarrow> err + db" where
  "cartItem_update cid bid f d =
     (if \<exists>it \<in> set (cartItems d). ciCartId it = cid \<and> ciBookId it = bid
      then Inr (d\<lparr> cartItems :=
                  map (\<lambda>it. if ciCartId it = cid \<and> ciBookId it = bid then f it else it)
                      (cartItems d) \<rparr>)
      else Inl (PrismaError ''P2025''))"

definition cartItem_deleteMany :: "nat \<Rightarrow> nat \<Rightarrow> db \<Rightarrow> db" where
  "cartItem_deleteMany cid bid d =
     d\<lparr> cartItems := filter (\<lambda>it. \<not> (ciCartId it = cid \<and> ciBookId it = bid)) (cartItems d) \<rparr>"

text \<open>
  \<open>include: { book: ... }\<close> joins every cart item with its book row. The relation is
  required, so a missing book row makes the client raise (an inconsistent query result).
\<close>

fun includeBook :: "db \<Rightarrow> cartItem list \<Rightarrow> err + (cartItem \<times> book) list" where
  "includeBook d [] = Inr []"
| "includeBook d (it # its) =
     (case books d (ciBookId it) of
        None \<Rightarrow> Inl (PrismaError ''INCONSISTENT'')
      | Some bk \<Rightarrow>
          (case includeBook d its of
             Inl e \<Rightarrow> Inl e
           | Inr rest \<Rightarrow> Inr ((it, bk) # rest)))"

definition order_create ::
  "nat \<Rightarrow> nat \<Rightarrow> rat \<Rightarrow> nat \<Rightarrow> db \<Rightarrow> err + db \<times> orderRow" where
  "order_create userId cid totalAmount now d =
     (if \<exists>r \<in> set (orders d). orderCartId r = Some cid
      then Inl (PrismaError ''P2002'')
      else
        (let order = \<lparr> orderId = nextOrderId d, orderUserId = userId, orderCartId = Some cid,
                    orderStatus = PENDING, orderPaymentStatus = UNPAID,
                    orderTotalAmount = totalAmount, orderPlacedAt = Some now,
                    orderCreatedAt = now \<rparr>
         in Inr (d\<lparr> orders := orders d @ [order], nextOrderId := Suc (nextOrderId d) \<rparr>,
                 order)))"

definition orderItem_create :: "orderItem \<Rightarrow> db \<Rightarrow> err + db" where
  "orderItem_create x d =
     (if \<exists>oi \<in> set (orderItems d). oiOrderId oi = oiOrderId x \<and> oiBookId oi = oiBookId x
      then Inl (PrismaError ''P2002'')
      else Inr (d\<lparr> orderItems := orderItems d @ [x] \<rparr>))"

section \<open>Cart controller\<close>

text \<open>
  \<open>parseId\<close> and \<open>parseQuantity\<close>, applied to what \<open>Number(...)\<close> makes of the request
  value (an empty or missing id is rejected like a non-positive one).
\<close>

definition isInteger :: "rat \<Rightarrow> bool" where
  "isInteger r = (of_int \<lfloor>r\<rfloor> = r)"

definition parseId :: "jsNumber \<Rightarrow> err + nat" where
  "parseId param =
     (case param of
        NaN \<Rightarrow> Inl (ApiError 400 ''BAD_REQUEST'')
      | Num r \<Rightarrow>
          if \<not> isInteger r \<or> r \<le> 0 then Inl (ApiError 400 ''BAD_REQUEST'')
          else Inr (nat \<lfloor>r\<rfloor>))"

definition parseQuantity :: "jsNumber \<Rightarrow> err + int" where
  "parseQuantity v =
     (case v of
        NaN \<Rightarrow> Inl (ApiError 400 ''VALIDATION_FAILED'')
      | Num q \<Rightarrow>
          if \<not> isInteger q \<or> q < 1 \<or> q > 999 then Inl (ApiError 400 ''VALIDATION_FAILED'')
          else Inr \<lfloor>q\<rfloor>)"

definition getOrCreateActiveCart :: "nat \<Rightarrow> nat \<Rightarrow> db \<Rightarrow> db \<times> cart" where
  "getOrCreateActiveCart userId now d =
     (case cart_findFirstActive userId d of
        Some c \<Rightarrow> (d, c)
      | None \<Rightarrow> cart_create userId now d)"

text \<open>
  \<open>GET /cart\<close>. The lines of the cart whose book is not soft-deleted, newest first,
  one page of them (lines created at the same time keep their table order); the
  subtotal is folded over the page that was fetched. The query
  values \<open>page\<close> and \<open>size\<close> are integers when present (defaults 1 and 20). Of the
  payload, the cart's status and creation time and the currency are left out.
\<close>

record cartPage =
  pageCartId :: nat
  pageContent :: "(cartItem \<times> book) list"
  pageSubtotal :: rat
  pageIndex :: nat
  pageSize :: nat
  pageTotalElements :: nat
  pageTotalPages :: nat

definition lineTotal :: "cartItem \<times> book \<Rightarrow> rat" where
  "lineTotal l = ciUnitPrice (fst l) * of_int (ciQuantity (fst l))"

definition cartLines :: "nat \<Rightarrow> db \<Rightarrow> (cartItem \<times> book) list" where
  "cartLines cid d =
     List.map_filter
       (\<lambda>it. case books d (ciBookId it) of
                None \<Rightarrow> None
              | Some bk \<Rightarrow>
                  if ciCartId it = cid \<and> bookDeletedAt bk = None then Some (it, bk) else None)
       (cartItems d)"

definition listCartController ::
  "nat option \<Rightarrow> int option \<Rightarrow> int option \<Rightarrow> nat \<Rightarrow> db \<Rightarrow> db \<times> (err + cartPage)" where
  "listCartController authUser qpage qsize now d =
     (case authUser of
        None \<Rightarrow> (d, Inl (ApiError 401 ''UNAUTHORIZED''))
      | Some uid \<Rightarrow>
          (let page = nat (max (case qpage of None \<Rightarrow> 1 | Some p \<Rightarrow> p) 1);
               sz = nat (min (max (case qsize of None \<Rightarrow> 20 | Some n \<Rightarrow> n) 1) 100);
               (d1, c) = getOrCreateActiveCart uid now d;
               matching = cartLines (cartId c) d1;
               totalElements = length matching;
               items = take sz (drop ((page - 1) * sz)
                         (sort_key (\<lambda>l. - int (ciCreatedAt (fst l))) matching));
               subtotal = foldl (\<lambda>sum it. sum + lineTotal it) 0 items
           in (d1, Inr \<lparr> pageCartId = cartId c, pageContent = items, pageSubtotal = subtotal,
                         pageIndex = page - 1, pageSize = sz,
                         pageTotalElements = totalElements,
                         pageTotalPages = (totalElements + sz - 1) div sz \<rparr>)))"

text \<open>
  \<open>POST /cart/items\<close>. The cart is fetched (or created) and the book checked before
  the transaction; the transaction holds the lookup of the line and its create or update.
\<close>

definition addCartItem_tx ::
  "cart \<Rightarrow> nat \<Rightarrow> int \<Rightarrow> book \<Rightarrow> nat \<Rightarrow> db \<Rightarrow> err + db \<times> cartItem" where
  "addCartItem_tx c bId q bk now d =
     (case cartItem_findUnique (cartId c) bId d of
        None \<Rightarrow>
          (let x = \<lparr> ciCartId = cartId c, ciBookId = bId, ciQuantity = q,
                      ciUnitPrice = bookPrice bk, ciCreatedAt = now, ciUpdatedAt = now \<rparr>
           in case cartItem_create x d of
                Inl e \<Rightarrow> Inl e
              | Inr d' \<Rightarrow> Inr (d', x))
      | Some existing \<Rightarrow>
          (let newQty = ciQuantity existing + q
           in if newQty > bookStock bk then Inl (ApiError 422 ''UNPROCESSABLE_ENTITY'')
              else
                (case cartItem_update (cartId c) bId
                        (\<lambda>it. it\<lparr> ciQuantity := newQty, ciUpdatedAt := now \<rparr>) d of
                   Inl e \<Rightarrow> Inl e
                 | Inr d' \<Rightarrow>
                     Inr (d', existing\<lparr> ciQuantity := newQty, ciUpdatedAt := now \<rparr>))))"

definition addCartItemController ::
  "nat option \<Rightarrow> jsNumber \<Rightarrow> jsNumber \<Rightarrow> nat \<Rightarrow> db \<Rightarrow> db \<times> (err + nat \<times> cartItem)" where
  "addCartItemController authUser bookId quantity now d =
     (case authUser of
        None \<Rightarrow> (d, Inl (ApiError 401 ''UNAUTHORIZED''))
      | Some uid \<Rightarrow>
          (case parseId bookId of
             Inl e \<Rightarrow> (d, Inl e)
           | Inr bId \<Rightarrow>
               (case parseQuantity quantity of
                  Inl e \<Rightarrow> (d, Inl e)
                | Inr q \<Rightarrow>
                    (let (d1, c) = getOrCreateActiveCart uid now d
                     in case book_findFirstLive bId d1 of
                          None \<Rightarrow> (d1, Inl (ApiError 404 ''RESOURCE_NOT_FOUND''))
                        | Some bk \<Rightarrow>
                            if bookStock bk < q
                            then (d1, Inl (ApiError 422 ''UNPROCESSABLE_ENTITY''))
                            else
                              (case transaction (addCartItem_tx c bId q bk now) d1 of
                                 (d2, Inl e) \<Rightarrow> (d2, Inl e)
                               | (d2, Inr result) \<Rightarrow> (d2, Inr (cartId c, result)))))))"

text \<open>\<open>PATCH /cart/items/:bookId\<close>: sets the quantity of an existing line.\<close>

definition updateCartItemController ::
  "nat option \<Rightarrow> jsNumber \<Rightarrow> jsNumber \<Rightarrow> nat \<Rightarrow> db \<Rightarrow> db \<times> (err + nat \<times> cartItem)" where
  "updateCartItemController authUser bookId quantity now d =
     (case authUser of
        None \<Rightarrow> (d, Inl (ApiError 401 ''UNAUTHORIZED''))
      | Some uid \<Rightarrow>
          (case parseId bookId of
             Inl e \<Rightarrow> (d, Inl e)
           | Inr bId \<Rightarrow>
               (case parseQuantity quantity of
                  Inl e \<Rightarrow> (d, Inl e)
                | Inr q \<Rightarrow>
                    (let (d1, c) = getOrCreateActiveCart uid now d
                     in case book_findFirstLive bId d1 of
                          None \<Rightarrow> (d1, Inl (ApiError 404 ''RESOURCE_NOT_FOUND''))
                        | Some bk \<Rightarrow>
                            if bookStock bk < q
                            then (d1, Inl (ApiError 422 ''UNPROCESSABLE_ENTITY''))
                            else
                              (case cartItem_findUnique (cartId c) bId d1 of
                                 None \<Rightarrow> (d1, Inl (ApiError 404 ''RESOURCE_NOT_FOUND''))
                               | Some existing \<Rightarrow>
                                   (case cartItem_update (cartId c) bId
                                           (\<lambda>it. it\<lparr> ciQuantity := q, ciUpdatedAt := now \<rparr>) d1 of
                                      Inl e \<Rightarrow> (d1, Inl e)
                                    | Inr d2 \<Rightarrow>
                                        (d2, Inr (cartId c,
                                           existing\<lparr> ciQuantity := q,
                                                     ciUpdatedAt := now \<rparr>))))))))"

text \<open>\<open>DELETE /cart/items/:bookId\<close>: deletes the line if there is one.\<close>

definition removeCartItemController ::
  "nat option \<Rightarrow> jsNumber \<Rightarrow> nat \<Rightarrow> db \<Rightarrow> db \<times> (err + nat \<times> nat)" where
  "removeCartItemController authUser bookId now d =
     (case authUser of
        None \<Rightarrow> (d, Inl (ApiError 401 ''UNAUTHORIZED''))
      | Some uid \<Rightarrow>
          (case parseId bookId of
             Inl e \<Rightarrow> (d, Inl e)
           | Inr bId \<Rightarrow>
               (let (d1, c) = getOrCreateActiveCart uid now d
                in (cartItem_deleteMany (cartId c) bId d1, Inr (cartId c, bId)))))"

section \<open>Order controller: checkout\<close>

text \<open>Step 3 of the checkout: the first deleted or under-stocked line throws.\<close>

fun validateItems :: "(cartItem \<times> book) list \<Rightarrow> err option" where
  "validateItems [] = None"
| "validateItems (l # rest) =
     (if bookDeletedAt (snd l) \<noteq> None then Some (ApiError 422 ''UNPROCESSABLE_ENTITY'')
      else if bookStock (snd l) < ciQuantity (fst l)
      then Some (ApiError 422 ''UNPROCESSABLE_ENTITY'')
      else validateItems rest)"

text \<open>
  Step 6: for every line, an order item with the title read in step 2, then the
  decrement of the book's stored stock.
\<close>

fun createOrderItems :: "nat \<Rightarrow> (cartItem \<times> book) list \<Rightarrow> db \<Rightarrow> err + db" where
  "createOrderItems oid [] d = Inr d"
| "createOrderItems oid (l # rest) d =
     (case orderItem_create
             \<lparr> oiOrderId = oid, oiBookId = ciBookId (fst l), oiQuantity = ciQuantity (fst l),
               oiUnitPrice = ciUnitPrice (fst l), oiBookTitleSnapshot = bookTitle (snd l) \<rparr> d of
        Inl e \<Rightarrow> Inl e
      | Inr d1 \<Rightarrow>
          (case book_update (ciBookId (fst l))
                  (\<lambda>b. b\<lparr> bookStock := bookStock b - ciQuantity (fst l) \<rparr>) d1 of
             Inl e \<Rightarrow> Inl e
           | Inr d2 \<Rightarrow> createOrderItems oid rest d2))"

definition createOrderFromCart_tx :: "nat \<Rightarrow> nat \<Rightarrow> db \<Rightarrow> err + db \<times> (nat \<times> nat)" where
  "createOrderFromCart_tx uid now d =
     (case cart_findFirstActive uid d of
        None \<Rightarrow> Inl (ApiError 404 ''RESOURCE_NOT_FOUND'')
      | Some c \<Rightarrow>
          (case includeBook d (filter (\<lambda>it. ciCartId it = cartId c) (cartItems d)) of
             Inl e \<Rightarrow> Inl e
           | Inr lines \<Rightarrow>
               if length lines = 0 then Inl (ApiError 422 ''UNPROCESSABLE_ENTITY'')
               else
                 (case validateItems lines of
                    Some e \<Rightarrow> Inl e
                  | None \<Rightarrow>
                      (let totalAmount = foldl (\<lambda>sum it. sum + lineTotal it) 0 lines
                       in case order_create uid (cartId c) totalAmount now d of
                            Inl e \<Rightarrow> Inl e
                          | Inr (d1, order) \<Rightarrow>
                              (case createOrderItems (orderId order) lines d1 of
                                 Inl e \<Rightarrow> Inl e
                               | Inr d2 \<Rightarrow>
                                   (case cart_update (cartId c)
                                           (\<lambda>x. x\<lparr> cartStatus := CHECKED_OUT \<rparr>) d2 of
                                      Inl e \<Rightarrow> Inl e
                                    | Inr d3 \<Rightarrow>
                                        Inr (d3, (orderId order, orderCreatedAt order))))))))"

definition createOrderFromCartController ::
  "nat option \<Rightarrow> nat \<Rightarrow> db \<Rightarrow> db \<times> (err + nat \<times> nat)" where
  "createOrderFromCartController authUser now d =
     (case authUser of
        None \<Rightarrow> (d, Inl (ApiError 401 ''UNAUTHORIZED''))
      | Some uid \<Rightarrow> transaction (createOrderFromCart_tx uid now) d)"

section \<open>Review and comment storage\<close>

definition review_findUnique :: "nat \<Rightarrow> db \<Rightarrow> review option" where
  "review_findUnique rid d = find (\<lambda>r. reviewId r = rid) (reviews d)"

definition review_findFirstLive :: "nat \<Rightarrow> db \<Rightarrow> review option" where
  "review_findFirstLive rid d =
     find (\<lambda>r. reviewId r = rid \<and> reviewDeletedAt r = None) (reviews d)"


definition review_update :: "nat \<Rightarrow> (review \<Rightarrow> review) \<Rightarrow> db \<Rightarrow> err + db" where
  "review_update rid f d =
     (if \<exists>r \<in> set (reviews d). reviewId r = rid
      then Inr (d\<lparr> reviews := map (\<lambda>r. if reviewId r = rid then f r else r) (reviews d) \<rparr>)
      else Inl (PrismaError ''P2025''))"

text \<open>
  \<open>review.aggregate\<close> over the reviews of a book that are not soft-deleted: their
  number, and the mean of their ratings (null when there is none).
\<close>

definition review_aggregate :: "nat \<Rightarrow> db \<Rightarrow> nat \<times> rat option" where
  "review_aggregate bookId d =
     (let rs = filter (\<lambda>r. reviewBookId r = bookId \<and> reviewDeletedAt r = None) (reviews d)
      in (length rs,
          if rs = [] then None
          else Some (of_int (sum_list (map reviewRating rs)) / of_nat (length rs))))"

definition reviewLike_findUnique :: "nat \<Rightarrow> nat \<Rightarrow> db \<Rightarrow> (nat \<times> nat) option" where
  "reviewLike_findUnique userId rid d = find (\<lambda>l. l = (userId, rid)) (reviewLikes d)"

definition reviewLike_create :: "nat \<Rightarrow> nat \<Rightarrow> db \<Rightarrow> err + db" where
  "reviewLike_create userId rid d =
     (if (userId, rid) \<in> set (reviewLikes d) then Inl (PrismaError ''P2002'')
      else if \<not> (\<exists>r \<in> set (reviews d). reviewId r = rid) then Inl (PrismaError ''P2003'')
      else Inr (d\<lparr> reviewLikes := reviewLikes d @ [(userId, rid)] \<rparr>))"

definition reviewLike_delete :: "nat \<Rightarrow> nat \<Rightarrow> db \<Rightarrow> err + db" where
  "reviewLike_delete userId rid d =
     (if (userId, rid) \<in> set (reviewLikes d)
      then Inr (d\<lparr> reviewLikes := filter (\<lambda>l. l \<noteq> (userId, rid)) (reviewLikes d) \<rparr>)
      else Inl (PrismaError ''P2025''))"

definition reviewLike_deleteMany :: "nat \<Rightarrow> db \<Rightarrow> db" where
  "reviewLike_deleteMany rid d =
     d\<lparr> reviewLikes := filter (\<lambda>l. snd l \<noteq> rid) (reviewLikes d) \<rparr>"

definition comment_findUnique :: "nat \<Rightarrow> db \<Rightarrow> comment option" where
  "comment_findUnique cid d = find (\<lambda>c. commentId c = cid) (comments d)"

definition comment_create :: "string \<Rightarrow> nat \<Rightarrow> nat \<Rightarrow> nat \<Rightarrow> db \<Rightarrow> err + db \<times> comment" where
  "comment_create content userId rid now d =
     (if \<not> (\<exists>r \<in> set (reviews d). reviewId r = rid) then Inl (PrismaError ''P2003'')
      else
        (let c = \<lparr> commentId = nextCommentId d, commentReviewId = rid, commentUserId = userId,
                    commentContent = content, commentLikeCount = 0, commentCreatedAt = now,
                    commentDeletedAt = None \<rparr>
         in Inr (d\<lparr> comments := comments d @ [c], nextCommentId := Suc (nextCommentId d) \<rparr>, c)))"

definition comment_update :: "nat \<Rightarrow> (comment \<Rightarrow> comment) \<Rightarrow> db \<Rightarrow> err + db" where
  "comment_update cid f d =
     (if \<exists>c \<in> set (comments d). commentId c = cid
      then Inr (d\<lparr> comments := map (\<lambda>c. if commentId c = cid then f c else c) (comments d) \<rparr>)
      else Inl (PrismaError ''P2025''))"

definition commentLike_findUnique :: "nat \<Rightarrow> nat \<Rightarrow> db \<Rightarrow> (nat \<times> nat) option" where
  "commentLike_findUnique userId cid d = find (\<lambda>l. l = (userId, cid)) (commentLikes d)"

definition commentLike_create :: "nat \<Rightarrow> nat \<Rightarrow> db \<Rightarrow> err + db" where
  "commentLike_create userId cid d =
     (if (userId, cid) \<in> set (commentLikes d) then Inl (PrismaError ''P2002'')
      else if \<not> (\<exists>c \<in> set (comments d). commentId c = cid) then Inl (PrismaError ''P2003'')
      else Inr (d\<lparr> commentLikes := commentLikes d @ [(userId, cid)] \<rparr>))"

definition commentLike_delete :: "nat \<Rightarrow> nat \<Rightarrow> db \<Rightarrow> err + db" where
  "commentLike_delete userId cid d =
     (if (userId, cid) \<in> set (commentLikes d)
      then Inr (d\<lparr> commentLikes := filter (\<lambda>l. l \<noteq> (userId, cid)) (commentLikes d) \<rparr>)
      else Inl (PrismaError ''P2025''))"

section \<open>Review controller\<close>

text \<open>
  \<open>String.prototype.trim\<close> on the ASCII white space (space, tab, line feed, vertical
  tab, form feed, carriage return).
\<close>

definition isWhiteSpace :: "char \<Rightarrow> bool" where
  "isWhiteSpace ch \<longleftrightarrow> ch \<in> set [CHR 0x20, CHR 0x09, CHR 0x0A, CHR 0x0B, CHR 0x0C, CHR 0x0D]"

definition trim :: "string \<Rightarrow> string" where
  "trim s = rev (dropWhile isWhiteSpace (rev (dropWhile isWhiteSpace s)))"


text \<open>
  The recomputation that each review transaction ends with: aggregate the live reviews
  of the book, store the count and the average (0 when there is none) on the book. The
  source's helper of this name holds these two statements; the three controllers repeat
  them inside their transactions.
\<close>

definition recomputeBookRating :: "nat \<Rightarrow> db \<Rightarrow> err + db" where
  "recomputeBookRating bookId d =
     (let agg = review_aggregate bookId d
      in book_update bookId
           (\<lambda>b. b\<lparr> bookReviewCount := int (fst agg),
                    bookAvgRating := (case snd agg of None \<Rightarrow> 0 | Some a \<Rightarrow> a) \<rparr>) d)"





definition deleteReview_tx :: "nat \<Rightarrow> nat \<Rightarrow> nat \<Rightarrow> db \<Rightarrow> err + db \<times> unit" where
  "deleteReview_tx rid bookId now d =
     (case review_update rid (\<lambda>r. r\<lparr> reviewDeletedAt := Some now \<rparr>) d of
        Inl e \<Rightarrow> Inl e
      | Inr d1 \<Rightarrow>
          (case recomputeBookRating bookId (reviewLike_deleteMany rid d1) of
             Inl e \<Rightarrow> Inl e
           | Inr d2 \<Rightarrow> Inr (d2, ())))"

definition deleteReviewController ::
  "nat option \<Rightarrow> jsNumber \<Rightarrow> nat \<Rightarrow> db \<Rightarrow> db \<times> (err + nat \<times> nat)" where
  "deleteReviewController authUser idParam now d =
     (case parseId idParam of
        Inl e \<Rightarrow> (d, Inl e)
      | Inr rid \<Rightarrow>
          (case authUser of
             None \<Rightarrow> (d, Inl (ApiError 401 ''UNAUTHORIZED''))
           | Some uid \<Rightarrow>
               (case review_findUnique rid d of
                  None \<Rightarrow> (d, Inl (ApiError 404 ''RESOURCE_NOT_FOUND''))
                | Some existing \<Rightarrow>
                    if reviewUserId existing \<noteq> uid
                    then (d, Inl (ApiError 403 ''FORBIDDEN''))
                    else
                      (case reviewDeletedAt existing of
                         Some t \<Rightarrow> (d, Inr (rid, t))
                       | None \<Rightarrow>
                           (case transaction
                                   (deleteReview_tx rid (reviewBookId existing) now) d of
                              (d', Inl e) \<Rightarrow> (d', Inl e)
                            | (d', Inr u) \<Rightarrow> (d', Inr (rid, now)))))))"

definition likeReview_tx :: "nat \<Rightarrow> nat \<Rightarrow> db \<Rightarrow> err + db \<times> unit" where
  "likeReview_tx uid rid d =
     (case reviewLike_findUnique uid rid d of
        Some l \<Rightarrow> Inr (d, ())
      | None \<Rightarrow>
          (case reviewLike_create uid rid d of
             Inl e \<Rightarrow> Inl e
           | Inr d1 \<Rightarrow>
               (case review_update rid
                       (\<lambda>r. r\<lparr> reviewLikeCount := reviewLikeCount r + 1 \<rparr>) d1 of
                  Inl e \<Rightarrow> Inl e
                | Inr d2 \<Rightarrow> Inr (d2, ()))))"

definition likeReviewController :: "nat option \<Rightarrow> jsNumber \<Rightarrow> db \<Rightarrow> db \<times> (err + unit)" where
  "likeReviewController authUser idParam d =
     (case parseId idParam of
        Inl e \<Rightarrow> (d, Inl e)
      | Inr rid \<Rightarrow>
          (case authUser of
             None \<Rightarrow> (d, Inl (ApiError 401 ''UNAUTHORIZED''))
           | Some uid \<Rightarrow>
               (case review_findFirstLive rid d of
                  None \<Rightarrow> (d, Inl (ApiError 404 ''RESOURCE_NOT_FOUND''))
                | Some r \<Rightarrow> transaction (likeReview_tx uid rid) d)))"

definition unlikeReview_tx :: "nat \<Rightarrow> nat \<Rightarrow> db \<Rightarrow> err + db \<times> unit" where
  "unlikeReview_tx uid rid d =
     (case reviewLike_findUnique uid rid d of
        None \<Rightarrow> Inr (d, ())
      | Some l \<Rightarrow>
          (case reviewLike_delete uid rid d of
             Inl e \<Rightarrow> Inl e
           | Inr d1 \<Rightarrow>
               (case review_update rid
                       (\<lambda>r. r\<lparr> reviewLikeCount := reviewLikeCount r - 1 \<rparr>) d1 of
                  Inl e \<Rightarrow> Inl e
                | Inr d2 \<Rightarrow> Inr (d2, ()))))"

definition unlikeReviewController :: "nat option \<Rightarrow> jsNumber \<Rightarrow> db \<Rightarrow> db \<times> (err + unit)" where
  "unlikeReviewController authUser idParam d =
     (case parseId idParam of
        Inl e \<Rightarrow> (d, Inl e)
      | Inr rid \<Rightarrow>
          (case authUser of
             None \<Rightarrow> (d, Inl (ApiError 401 ''UNAUTHORIZED''))
           | Some uid \<Rightarrow> transaction (unlikeReview_tx uid rid) d))"

section \<open>Comment controller\<close>

text \<open>
  \<open>POST /comments/reviews/:reviewId\<close>. The controller awaits \<open>prisma.comment.create\<close>
  and then \<open>prisma.review.update\<close>, outside any transaction: each statement commits
  on its own. \<open>createComment_afterCreate\<close> is the call up to the first commit.
\<close>

definition createComment_afterCreate ::
  "nat option \<Rightarrow> jsNumber \<Rightarrow> string \<Rightarrow> nat \<Rightarrow> db \<Rightarrow> db \<times> (err + nat \<times> comment)" where
  "createComment_afterCreate authUser reviewIdParam content now d =
     (case parseId reviewIdParam of
        Inl e \<Rightarrow> (d, Inl e)
      | Inr rid \<Rightarrow>
          (case authUser of
             None \<Rightarrow> (d, Inl (ApiError 401 ''UNAUTHORIZED''))
           | Some uid \<Rightarrow>
               if length (trim content) < 1
               then (d, Inl (ApiError 400 ''VALIDATION_FAILED''))
               else
                 (case review_findFirstLive rid d of
                    None \<Rightarrow> (d, Inl (ApiError 404 ''RESOURCE_NOT_FOUND''))
                  | Some r \<Rightarrow>
                      (case comment_create (trim content) uid rid now d of
                         Inl e \<Rightarrow> (d, Inl e)
                       | Inr (d1, created) \<Rightarrow> (d1, Inr (rid, created))))))"

definition createCommentController ::
  "nat option \<Rightarrow> jsNumber \<Rightarrow> string \<Rightarrow> nat \<Rightarrow> db \<Rightarrow> db \<times> (err + nat \<times> nat)" where
  "createCommentController authUser reviewIdParam content now d =
     (case createComment_afterCreate authUser reviewIdParam content now d of
        (d1, Inl e) \<Rightarrow> (d1, Inl e)
      | (d1, Inr (rid, created)) \<Rightarrow>
          (case review_update rid
                  (\<lambda>r. r\<lparr> reviewCommentCount := reviewCommentCount r + 1 \<rparr>) d1 of
             Inl e \<Rightarrow> (d1, Inl e)
           | Inr d2 \<Rightarrow> (d2, Inr (commentId created, commentCreatedAt created))))"

text \<open>
  \<open>DELETE /comments/:id\<close>, likewise two statements that commit one after the other;
  \<open>deleteComment_afterUpdate\<close> is the call up to the first commit, and yields the
  review to decrement when there is something left to do.
\<close>

definition deleteComment_afterUpdate ::
  "nat option \<Rightarrow> jsNumber \<Rightarrow> nat \<Rightarrow> db \<Rightarrow> db \<times> (err + (nat \<times> nat) \<times> nat option)" where
  "deleteComment_afterUpdate authUser idParam now d =
     (case parseId idParam of
        Inl e \<Rightarrow> (d, Inl e)
      | Inr cid \<Rightarrow>
          (case authUser of
             None \<Rightarrow> (d, Inl (ApiError 401 ''UNAUTHORIZED''))
           | Some uid \<Rightarrow>
               (case comment_findUnique cid d of
                  None \<Rightarrow> (d, Inl (ApiError 404 ''RESOURCE_NOT_FOUND''))
                | Some existing \<Rightarrow>
                    if commentUserId existing \<noteq> uid
                    then (d, Inl (ApiError 403 ''FORBIDDEN''))
                    else
                      (case commentDeletedAt existing of
                         Some t \<Rightarrow> (d, Inr ((cid, t), None))
                       | None \<Rightarrow>
                           (case comment_update cid
                                   (\<lambda>c. c\<lparr> commentDeletedAt := Some now \<rparr>) d of
                              Inl e \<Rightarrow> (d, Inl e)
                            | Inr d1 \<Rightarrow>
                                (d1, Inr ((cid, now), Some (commentReviewId existing))))))))"

definition deleteCommentController ::
  "nat option \<Rightarrow> jsNumber \<Rightarrow> nat \<Rightarrow> db \<Rightarrow> db \<times> (err + nat \<times> nat)" where
  "deleteCommentController authUser idParam now d =
     (case deleteComment_afterUpdate authUser idParam now d of
        (d1, Inl e) \<Rightarrow> (d1, Inl e)
      | (d1, Inr (deleted, None)) \<Rightarrow> (d1, Inr deleted)
      | (d1, Inr (deleted, Some rid)) \<Rightarrow>
          (case review_update rid
                  (\<lambda>r. r\<lparr> reviewCommentCount := reviewCommentCount r - 1 \<rparr>) d1 of
             Inl e \<Rightarrow> (d1, Inl e)
           | Inr d2 \<Rightarrow> (d2, Inr deleted)))"

definition likeComment_tx :: "nat \<Rightarrow> nat \<Rightarrow> db \<Rightarrow> err + db \<times> unit" where
  "likeComment_tx uid cid d =
     (case commentLike_findUnique uid cid d of
        Some l \<Rightarrow> Inr (d, ())
      | None \<Rightarrow>
          (case commentLike_create uid cid d of
             Inl e \<Rightarrow> Inl e
           | Inr d1 \<Rightarrow>
               (case comment_update cid
                       (\<lambda>c. c\<lparr> commentLikeCount := commentLikeCount c + 1 \<rparr>) d1 of
                  Inl e \<Rightarrow> Inl e
                | Inr d2 \<Rightarrow> Inr (d2, ()))))"

definition likeCommentController :: "nat option \<Rightarrow> jsNumber \<Rightarrow> db \<Rightarrow> db \<times> (err + unit)" where
  "likeCommentController authUser idParam d =
     (case parseId idParam of
        Inl e \<Rightarrow> (d, Inl e)
      | Inr cid \<Rightarrow>
          (case authUser of
             None \<Rightarrow> (d, Inl (ApiError 401 ''UNAUTHORIZED''))
           | Some uid \<Rightarrow> transaction (likeComment_tx uid cid) d))"

definition unlikeComment_tx :: "nat \<Rightarrow> nat \<Rightarrow> db \<Rightarrow> err + db \<times> unit" where
  "unlikeComment_tx uid cid d =
     (case commentLike_findUnique uid cid d of
        None \<Rightarrow> Inr (d, ())
      | Some l \<Rightarrow>
          (case commentLike_delete uid cid d of
             Inl e \<Rightarrow> Inl e
           | Inr d1 \<Rightarrow>
               (case comment_update cid
                       (\<lambda>c. c\<lparr> commentLikeCount := commentLikeCount c - 1 \<rparr>) d1 of
                  Inl e \<Rightarrow> Inl e
                | Inr d2 \<Rightarrow> Inr (d2, ()))))"

definition unlikeCommentController :: "nat option \<Rightarrow> jsNumber \<Rightarrow> db \<Rightarrow> db \<times> (err + unit)" where
  "unlikeCommentController authUser idParam d =
     (case parseId idParam of
        Inl e \<Rightarrow> (d, Inl e)
      | Inr cid \<Rightarrow>
          (case authUser of
             None \<Rightarrow> (d, Inl (ApiError 401 ''UNAUTHORIZED''))
           | Some uid \<Rightarrow> transaction (unlikeComment_tx uid cid) d))"


section \<open>The book's rating aggregates\<close>



section \<open>Database constraints and derived quantities\<close>

text \<open>
  The constraints of the schema that the cart and order tables rely on: the primary key
  (cartId, bookId) of \<open>CartItem\<close>, its foreign key into \<open>Book\<close>, the freshness of the
  auto-increment counters, and the unique \<open>cartId\<close> of \<open>Order\<close> (an order exists only
  for a cart that is no longer ACTIVE).
\<close>

definition cartItemKey :: "cartItem \<Rightarrow> nat \<times> nat" where
  "cartItemKey it = (ciCartId it, ciBookId it)"

definition dbConstraints :: "db \<Rightarrow> bool" where
  "dbConstraints d \<longleftrightarrow>
     distinct (map cartItemKey (cartItems d))
   \<and> (\<forall>it \<in> set (cartItems d). books d (ciBookId it) \<noteq> None)
   \<and> (\<forall>oi \<in> set (orderItems d). oiOrderId oi < nextOrderId d)
   \<and> (\<forall>c \<in> set (carts d). cartId c < nextCartId d)
   \<and> (\<forall>r \<in> set (orders d). \<forall>cid. orderCartId r = Some cid \<longrightarrow>
         cid < nextCartId d \<and> (\<forall>c \<in> set (carts d). cartId c = cid \<longrightarrow> cartStatus c \<noteq> ACTIVE))"

definition stockNonneg :: "db \<Rightarrow> bool" where
  "stockNonneg d \<longleftrightarrow> (\<forall>b bk. books d b = Some bk \<longrightarrow> 0 \<le> bookStock bk)"

definition activeCartsOf :: "nat \<Rightarrow> db \<Rightarrow> cart list" where
  "activeCartsOf userId d = filter (\<lambda>c. cartUserId c = userId \<and> cartStatus c = ACTIVE) (carts d)"

definition orderedQuantity :: "nat \<Rightarrow> db \<Rightarrow> int" where
  "orderedQuantity b d = (\<Sum>oi \<leftarrow> filter (\<lambda>oi. oiBookId oi = b) (orderItems d). oiQuantity oi)"

text \<open>
  The effect of the checkout's second loop on the \<open>Book\<close> table, the order item built
  from a line, the total quantity of a book over a list of lines, the order row and the
  cart table after a checkout: used to state what a successful checkout writes.
\<close>

fun decrementStocks :: "(cartItem \<times> book) list \<Rightarrow> (nat \<rightharpoonup> book) \<Rightarrow> (nat \<rightharpoonup> book)" where
  "decrementStocks [] m = m"
| "decrementStocks (l # ls) m =
     decrementStocks ls
       (case m (ciBookId (fst l)) of
          None \<Rightarrow> m
        | Some bk \<Rightarrow> m(ciBookId (fst l) \<mapsto> bk\<lparr> bookStock := bookStock bk - ciQuantity (fst l) \<rparr>))"

definition toOrderItem :: "nat \<Rightarrow> cartItem \<times> book \<Rightarrow> orderItem" where
  "toOrderItem oid l =
     \<lparr> oiOrderId = oid, oiBookId = ciBookId (fst l), oiQuantity = ciQuantity (fst l),
       oiUnitPrice = ciUnitPrice (fst l), oiBookTitleSnapshot = bookTitle (snd l) \<rparr>"

definition lineQuantity :: "nat \<Rightarrow> (cartItem \<times> book) list \<Rightarrow> int" where
  "lineQuantity b ls = (\<Sum>l \<leftarrow> filter (\<lambda>l. ciBookId (fst l) = b) ls. ciQuantity (fst l))"

definition newOrder :: "nat \<Rightarrow> cart \<Rightarrow> (cartItem \<times> book) list \<Rightarrow> nat \<Rightarrow> db \<Rightarrow> orderRow" where
  "newOrder uid c ls now d =
     \<lparr> orderId = nextOrderId d, orderUserId = uid, orderCartId = Some (cartId c),
       orderStatus = PENDING, orderPaymentStatus = UNPAID,
       orderTotalAmount = (\<Sum>l \<leftarrow> ls. ciUnitPrice (fst l) * of_int (ciQuantity (fst l))),
       orderPlacedAt = Some now, orderCreatedAt = now \<rparr>"

definition checkedOut :: "cart \<Rightarrow> cart list \<Rightarrow> cart list" where
  "checkedOut c cs = map (\<lambda>x. if cartId x = cartId c then x\<lparr> cartStatus := CHECKED_OUT \<rparr> else x) cs"


section \<open>Sequences of cart requests\<close>

text \<open>
  A request carries the authenticated user (if any), the time of the call and the
  operation; a sequence of requests is served one after the other.
\<close>

datatype cartOp =
    ListCart "int option" "int option"
  | AddItem jsNumber jsNumber
  | UpdateItem jsNumber jsNumber
  | RemoveItem jsNumber
  | Checkout

fun cartStep :: "nat option \<times> nat \<times> cartOp \<Rightarrow> db \<Rightarrow> db" where
  "cartStep (au, now, ListCart p s) d = fst (listCartController au p s now d)"
| "cartStep (au, now, AddItem b q) d = fst (addCartItemController au b q now d)"
| "cartStep (au, now, UpdateItem b q) d = fst (updateCartItemController au b q now d)"
| "cartStep (au, now, RemoveItem b) d = fst (removeCartItemController au b now d)"
| "cartStep (au, now, Checkout) d = fst (createOrderFromCartController au now d)"

fun runCart :: "(nat option \<times> nat \<times> cartOp) list \<Rightarrow> db \<Rightarrow> db" where
  "runCart [] d = d"
| "runCart (r # rs) d = runCart rs (cartStep r d)"

text \<open>
  Stock is conserved between two databases when every book of the first is still there
  in the second and its stock plus the quantity ordered of it is the same in both.
\<close>

definition conserved :: "db \<Rightarrow> db \<Rightarrow> bool" where
  "conserved d0 d \<longleftrightarrow>
     (\<forall>b bk. books d0 b = Some bk \<longrightarrow>
        (\<exists>bk'. books d b = Some bk' \<and>
           bookStock bk' + orderedQuantity b d = bookStock bk + orderedQuantity b d0))"

section \<open>Example databases\<close>

definition emptyDb :: db where
  "emptyDb = \<lparr> books = Map.empty, carts = [], nextCartId = 1, cartItems = [], orders = [],
               nextOrderId = 1, orderItems = [], reviews = [], nextReviewId = 1,
               reviewLikes = [], comments = [], nextCommentId = 1, commentLikes = [] \<rparr>"

text \<open>
  User 7 holds an ACTIVE cart with three copies of book 1 (five in stock) and one copy
  of book 2 (none in stock).
\<close>

definition dbShortStock :: db where
  "dbShortStock = emptyDb
     \<lparr> books :=
         [1 \<mapsto> \<lparr> bookTitle = ''Dune'', bookPrice = 10000, bookStock = 5,
                  bookDeletedAt = None, bookAvgRating = 0, bookReviewCount = 0 \<rparr>,
          2 \<mapsto> \<lparr> bookTitle = ''Emma'', bookPrice = 8000, bookStock = 0,
                  bookDeletedAt = None, bookAvgRating = 0, bookReviewCount = 0 \<rparr>],
       carts := [\<lparr> cartId = 1, cartUserId = 7, cartStatus = ACTIVE, cartCreatedAt = 10 \<rparr>],
       nextCartId := 2,
       cartItems :=
         [\<lparr> ciCartId = 1, ciBookId = 1, ciQuantity = 3, ciUnitPrice = 10000,
            ciCreatedAt = 11, ciUpdatedAt = 11 \<rparr>,
          \<lparr> ciCartId = 1, ciBookId = 2, ciQuantity = 1, ciUnitPrice = 8000,
            ciCreatedAt = 12, ciUpdatedAt = 12 \<rparr>] \<rparr>"

text \<open>
  User 7 holds an ACTIVE cart with three copies of book 1, captured at 10000 each;
  the book has since been repriced to 12000.
\<close>

definition dbRepriced :: db where
  "dbRepriced = emptyDb
     \<lparr> books :=
         [1 \<mapsto> \<lparr> bookTitle = ''Dune'', bookPrice = 12000, bookStock = 5,
                  bookDeletedAt = None, bookAvgRating = 0, bookReviewCount = 0 \<rparr>],
       carts := [\<lparr> cartId = 1, cartUserId = 7, cartStatus = ACTIVE, cartCreatedAt = 10 \<rparr>],
       nextCartId := 2,
       cartItems :=
         [\<lparr> ciCartId = 1, ciBookId = 1, ciQuantity = 3, ciUnitPrice = 10000,
            ciCreatedAt = 11, ciUpdatedAt = 11 \<rparr>] \<rparr>"

text \<open>A catalogue of one book, five in stock, and no cart yet.\<close>

definition dbOneBook :: db where
  "dbOneBook = emptyDb
     \<lparr> books :=
         [1 \<mapsto> \<lparr> bookTitle = ''Dune'', bookPrice = 10000, bookStock = 5,
                  bookDeletedAt = None, bookAvgRating = 0, bookReviewCount = 0 \<rparr>] \<rparr>"

definition addThenCheckout :: "(nat option \<times> nat \<times> cartOp) list" where
  "addThenCheckout = [(Some 7, 10, AddItem (Num 1) (Num 3)), (Some 7, 20, Checkout)]"

definition browseAndBuy :: "(nat option \<times> nat \<times> cartOp) list" where
  "browseAndBuy =
     [(Some 7, 10, ListCart None None), (Some 7, 11, AddItem (Num 1) (Num 3)),
      (Some 8, 12, AddItem (Num 1) (Num 1)), (Some 7, 13, UpdateItem (Num 1) (Num 2)),
      (Some 8, 14, RemoveItem (Num 1)), (Some 7, 20, Checkout),
      (Some 7, 21, ListCart (Some 1) (Some 20))]"

text \<open>The one-book catalogue after user 7 has reviewed the book with rating 5.\<close>

definition dbReviewed :: db where
  "dbReviewed = emptyDb
     \<lparr> books :=
         [1 \<mapsto> \<lparr> bookTitle = ''Dune'', bookPrice = 10000, bookStock = 5,
                  bookDeletedAt = None, bookAvgRating = 5, bookReviewCount = 1 \<rparr>],
       reviews :=
         [\<lparr> reviewId = 1, reviewBookId = 1, reviewUserId = 7, reviewRating = 5,
            reviewTitle = None, reviewContent = ''Great'', reviewLikeCount = 0,
            reviewCommentCount = 0, reviewCreatedAt = 10,
            reviewDeletedAt = None \<rparr>],
       nextReviewId := 2 \<rparr>"

text \<open>The same after user 7 has soft-deleted the review.\<close>

definition dbReviewDeleted :: db where
  "dbReviewDeleted = emptyDb
     \<lparr> books :=
         [1 \<mapsto> \<lparr> bookTitle = ''Dune'', bookPrice = 10000, bookStock = 5,
                  bookDeletedAt = None, bookAvgRating = 0, bookReviewCount = 0 \<rparr>],
       reviews :=
         [\<lparr> reviewId = 1, reviewBookId = 1, reviewUserId = 7, reviewRating = 5,
            reviewTitle = None, reviewContent = ''Great'', reviewLikeCount = 0,
            reviewCommentCount = 0, reviewCreatedAt = 10,
            reviewDeletedAt = Some 20 \<rparr>],
       nextReviewId := 2 \<rparr>"

text \<open>The reviewed catalogue after user 8 has liked review 1.\<close>

definition dbLiked :: db where
  "dbLiked = dbReviewed
     \<lparr> reviews :=
         [\<lparr> reviewId = 1, reviewBookId = 1, reviewUserId = 7, reviewRating = 5,
            reviewTitle = None, reviewContent = ''Great'', reviewLikeCount = 1,
            reviewCommentCount = 0, reviewCreatedAt = 10,
            reviewDeletedAt = None \<rparr>],
       reviewLikes := [(8, 1)] \<rparr>"

text \<open>
  The reviewed catalogue with one comment of user 8 on review 1, live, and the same
  with that comment soft-deleted.
\<close>

definition dbCommented :: db where
  "dbCommented = dbReviewed
     \<lparr> reviews :=
         [\<lparr> reviewId = 1, reviewBookId = 1, reviewUserId = 7, reviewRating = 5,
            reviewTitle = None, reviewContent = ''Great'', reviewLikeCount = 0,
            reviewCommentCount = 1, reviewCreatedAt = 10,
            reviewDeletedAt = None \<rparr>],
       comments :=
         [\<lparr> commentId = 1, commentReviewId = 1, commentUserId = 8, commentContent = ''Nice'',
            commentLikeCount = 0, commentCreatedAt = 30, commentDeletedAt = None \<rparr>],
       nextCommentId := 2 \<rparr>"

definition dbCommentDeleted :: db where
  "dbCommentDeleted = dbReviewed
     \<lparr> comments :=
         [\<lparr> commentId = 1, commentReviewId = 1, commentUserId = 8, commentContent = ''Nice'',
            commentLikeCount = 0, commentCreatedAt = 30, commentDeletedAt = Some 40 \<rparr>],
       nextCommentId := 2 \<rparr>"

section \<open>The transaction and the checkout's reads\<close>

lemma transaction_Inl: "snd (transaction body d) = Inl e \<Longrightarrow> fst (transaction body d) = d"
  by (auto simp: transaction_def split: sum.splits prod.splits)

lemma includeBook_Inl: "includeBook d its = Inl e \<Longrightarrow> e = PrismaError ''INCONSISTENT''"
  by (induction its arbitrary: e) (auto split: option.splits sum.splits)

lemma includeBook_Inr:
  "includeBook d its = Inr ls \<Longrightarrow>
     map fst ls = its \<and> (\<forall>l \<in> set ls. books d (ciBookId (fst l)) = Some (snd l))"
  by (induction its arbitrary: ls) (auto split: option.splits sum.splits)

lemma includeBook_total:
  "\<forall>it \<in> set its. books d (ciBookId it) \<noteq> None \<Longrightarrow> \<exists>ls. includeBook d its = Inr ls"
  by (induction its) (auto split: option.splits sum.splits)

lemma validateItems_Some:
  "validateItems ls = Some e \<Longrightarrow> e = ApiError 422 ''UNPROCESSABLE_ENTITY''"
  by (induction ls) (auto split: if_splits)

lemma validateItems_None_iff:
  "validateItems ls = None \<longleftrightarrow>
     (\<forall>l \<in> set ls. bookDeletedAt (snd l) = None \<and> ciQuantity (fst l) \<le> bookStock (snd l))"
  by (induction ls) auto

lemma checkout_invalid_line_422:
  assumes c: "cart_findFirstActive uid d = Some c"
    and ls: "includeBook d (filter (\<lambda>it. ciCartId it = cartId c) (cartItems d)) = Inr ls"
    and it: "it \<in> set (cartItems d)" "ciCartId it = cartId c"
    and bk: "books d (ciBookId it) = Some bk"
    and bad: "bookDeletedAt bk \<noteq> None \<or> bookStock bk < ciQuantity it"
  shows "createOrderFromCart_tx uid now d = Inl (ApiError 422 ''UNPROCESSABLE_ENTITY'')"
proof -
  from includeBook_Inr[OF ls]
  have m: "map fst ls = filter (\<lambda>it. ciCartId it = cartId c) (cartItems d)"
    and b: "\<forall>l \<in> set ls. books d (ciBookId (fst l)) = Some (snd l)" by auto
  from it have "it \<in> set (filter (\<lambda>it. ciCartId it = cartId c) (cartItems d))" by simp
  with m have "it \<in> set (map fst ls)" by simp
  then obtain l where l: "l \<in> set ls" "fst l = it" by auto
  with b bk have "snd l = bk" by auto
  with l bad
  have "\<not> (\<forall>l \<in> set ls. bookDeletedAt (snd l) = None \<and> ciQuantity (fst l) \<le> bookStock (snd l))"
    by (auto simp: not_le)
  then obtain e where e: "validateItems ls = Some e"
    using validateItems_None_iff[of ls] by auto
  from l have "ls \<noteq> []" by auto
  then show ?thesis using c ls e validateItems_Some[OF e]
    by (simp add: createOrderFromCart_tx_def)
qed

lemma checkout_invalid_line:
  assumes c: "cart_findFirstActive uid d = Some c"
    and it: "it \<in> set (cartItems d)" "ciCartId it = cartId c"
    and bk: "books d (ciBookId it) = Some bk"
    and bad: "bookDeletedAt bk \<noteq> None \<or> bookStock bk < ciQuantity it"
  shows "\<exists>e. createOrderFromCart_tx uid now d = Inl e \<and>
           (e = ApiError 422 ''UNPROCESSABLE_ENTITY'' \<or> e = PrismaError ''INCONSISTENT'')"
proof (cases "includeBook d (filter (\<lambda>it. ciCartId it = cartId c) (cartItems d))")
  case (Inl e)
  then show ?thesis using c includeBook_Inl[OF Inl]
    by (simp add: createOrderFromCart_tx_def)
next
  case (Inr ls)
  from checkout_invalid_line_422[OF c Inr it bk bad] show ?thesis by simp
qed

section \<open>What a successful checkout writes\<close>

lemma createOrderItems_Inr:
  "createOrderItems oid ls d = Inr d' \<Longrightarrow>
     d' = d\<lparr> orderItems := orderItems d @ map (toOrderItem oid) ls,
             books := decrementStocks ls (books d) \<rparr>"
proof (induction ls arbitrary: d)
  case Nil
  then show ?case by simp
next
  case (Cons l ls)
  from Cons.prems obtain bk where bk: "books d (ciBookId (fst l)) = Some bk"
    and rest: "createOrderItems oid ls
                 (d\<lparr> orderItems := orderItems d @ [toOrderItem oid l],
                      books := (books d)(ciBookId (fst l) \<mapsto>
                                 bk\<lparr> bookStock := bookStock bk - ciQuantity (fst l) \<rparr>) \<rparr>) = Inr d'"
    by (auto simp: orderItem_create_def book_update_def toOrderItem_def
             split: sum.splits if_splits option.splits)
  from Cons.IH[OF rest] bk show ?case by (simp add: fun_upd_def)
qed

lemma decrementStocks_apply:
  "decrementStocks ls m b =
     map_option (\<lambda>bk. bk\<lparr> bookStock := bookStock bk - lineQuantity b ls \<rparr>) (m b)"
proof (induction ls arbitrary: m)
  case Nil
  then show ?case by (simp add: lineQuantity_def option.map_ident)
next
  case (Cons l ls)
  show ?case
    by (cases "m (ciBookId (fst l))"; cases "m b")
       (auto simp: Cons.IH lineQuantity_def algebra_simps)
qed



lemma foldl_plus_sum_list:
  "foldl (\<lambda>sum it. sum + f it) (a::rat) xs = a + sum_list (map f xs)"
  by (induction xs arbitrary: a) (simp_all add: add.assoc)

lemma createOrderFromCart_tx_Inr:
  assumes "createOrderFromCart_tx uid now d = Inr (d', r)"
  shows "\<exists>c ls. cart_findFirstActive uid d = Some c
           \<and> includeBook d (filter (\<lambda>it. ciCartId it = cartId c) (cartItems d)) = Inr ls
           \<and> ls \<noteq> [] \<and> validateItems ls = None
           \<and> r = (nextOrderId d, now)
           \<and> d' = d\<lparr> orders := orders d @ [newOrder uid c ls now d],
                      nextOrderId := Suc (nextOrderId d),
                      orderItems := orderItems d @ map (toOrderItem (nextOrderId d)) ls,
                      books := decrementStocks ls (books d),
                      carts := checkedOut c (carts d) \<rparr>"
proof -
  from assms obtain c where c: "cart_findFirstActive uid d = Some c"
    by (auto simp: createOrderFromCart_tx_def split: option.splits)
  from assms c obtain ls where
    ls: "includeBook d (filter (\<lambda>it. ciCartId it = cartId c) (cartItems d)) = Inr ls"
    by (auto simp: createOrderFromCart_tx_def split: sum.splits)
  from assms c ls have ne: "ls \<noteq> []" and v: "validateItems ls = None"
    by (auto simp: createOrderFromCart_tx_def split: if_splits option.splits)
  let ?total = "foldl (\<lambda>sum it. sum + lineTotal it) 0 ls"
  from assms c ls ne v obtain d1 order where
    oc: "order_create uid (cartId c) ?total now d = Inr (d1, order)"
    by (auto simp: createOrderFromCart_tx_def Let_def split: sum.splits)
  have tot: "?total = (\<Sum>l \<leftarrow> ls. ciUnitPrice (fst l) * of_int (ciQuantity (fst l)))"
    by (simp add: foldl_plus_sum_list lineTotal_def)
  from oc have d1: "d1 = d\<lparr> orders := orders d @ [newOrder uid c ls now d],
                             nextOrderId := Suc (nextOrderId d) \<rparr>"
    and order: "order = newOrder uid c ls now d"
    by (auto simp: order_create_def Let_def newOrder_def tot split: if_splits)
  from assms c ls ne v oc obtain d2 where
    coi: "createOrderItems (orderId order) ls d1 = Inr d2"
    by (auto simp: createOrderFromCart_tx_def Let_def split: sum.splits)
  from assms c ls ne v oc coi obtain d3 where
    cu: "cart_update (cartId c) (\<lambda>x. x\<lparr> cartStatus := CHECKED_OUT \<rparr>) d2 = Inr d3"
    and res: "d' = d3" "r = (orderId order, orderCreatedAt order)"
    by (auto simp: createOrderFromCart_tx_def Let_def split: sum.splits)
  from createOrderItems_Inr[OF coi]
  have d2: "d2 = d1\<lparr> orderItems := orderItems d1 @ map (toOrderItem (orderId order)) ls,
                      books := decrementStocks ls (books d1) \<rparr>" .
  from cu have d3: "d3 = d2\<lparr> carts := checkedOut c (carts d2) \<rparr>"
    by (auto simp: cart_update_def checkedOut_def split: if_splits)
  show ?thesis
    using c ls ne v res d1 d2 d3 order by (simp add: newOrder_def)
qed

lemma cart_findFirstActive_Some:
  "cart_findFirstActive uid d = Some c \<Longrightarrow>
     c \<in> set (carts d) \<and> cartUserId c = uid \<and> cartStatus c = ACTIVE"
  by (auto simp: cart_findFirstActive_def find_Some_iff)

lemma distinct_cart_books:
  "distinct (map cartItemKey xs) \<Longrightarrow>
     distinct (map ciBookId (filter (\<lambda>it. ciCartId it = cid) xs))"
proof (induction xs)
  case Nil
  then show ?case by simp
next
  case (Cons x xs)
  then show ?case by (auto simp: cartItemKey_def image_iff)
qed



lemma lineQuantity_notin:
  "b \<notin> (\<lambda>l. ciBookId (fst l)) ` set ls \<Longrightarrow> lineQuantity b ls = 0"
  by (induction ls) (auto simp: lineQuantity_def)

lemma lineQuantity_distinct:
  "distinct (map (\<lambda>l. ciBookId (fst l)) ls) \<Longrightarrow> l \<in> set ls \<Longrightarrow>
     lineQuantity (ciBookId (fst l)) ls = ciQuantity (fst l)"
proof (induction ls)
  case Nil
  then show ?case by simp
next
  case (Cons x xs)
  show ?case
  proof (cases "l = x")
    case True
    with Cons.prems have "lineQuantity (ciBookId (fst x)) xs = 0"
      by (intro lineQuantity_notin) auto
    with True show ?thesis by (simp add: lineQuantity_def)
  next
    case False
    with Cons.prems have "l \<in> set xs" "ciBookId (fst x) \<noteq> ciBookId (fst l)" by auto
    with Cons show ?thesis by (simp add: lineQuantity_def)
  qed
qed



section \<open>Checkout is all or nothing\<close>

text \<open>
  Claim C1. Whenever the checkout returns an error, the database it leaves is the
  database it found: no order row, no order item, no stock change, the cart still
  ACTIVE. And each validation failure does return an error: no ACTIVE cart gives 404
  RESOURCE_NOT_FOUND, an empty cart gives 422 UNPROCESSABLE_ENTITY, and a line whose book
  is soft-deleted or has less stock than the line's quantity makes the checkout fail
  (with 422 whenever every line's book row can be read).
\<close>

theorem checkout_atomic:
  "(\<forall>e. snd (createOrderFromCartController authUser now d) = Inl e \<longrightarrow>
         fst (createOrderFromCartController authUser now d) = d)
   \<and> (cart_findFirstActive uid d = None \<longrightarrow>
        createOrderFromCartController (Some uid) now d =
          (d, Inl (ApiError 404 ''RESOURCE_NOT_FOUND'')))
   \<and> (\<forall>c. cart_findFirstActive uid d = Some c \<and>
            (\<forall>it \<in> set (cartItems d). ciCartId it \<noteq> cartId c) \<longrightarrow>
        createOrderFromCartController (Some uid) now d =
          (d, Inl (ApiError 422 ''UNPROCESSABLE_ENTITY'')))
   \<and> (\<forall>c it bk. cart_findFirstActive uid d = Some c \<and>
            it \<in> set (cartItems d) \<and> ciCartId it = cartId c \<and>
            books d (ciBookId it) = Some bk \<and>
            (bookDeletedAt bk \<noteq> None \<or> bookStock bk < ciQuantity it) \<longrightarrow>
        (\<exists>e. createOrderFromCartController (Some uid) now d = (d, Inl e) \<and>
             (e = ApiError 422 ''UNPROCESSABLE_ENTITY'' \<or> e = PrismaError ''INCONSISTENT'')))"
proof (intro conjI allI impI)
  fix e assume "snd (createOrderFromCartController authUser now d) = Inl e"
  then show "fst (createOrderFromCartController authUser now d) = d"
    by (cases authUser) (auto simp: createOrderFromCartController_def dest: transaction_Inl)
next
  assume "cart_findFirstActive uid d = None"
  then show "createOrderFromCartController (Some uid) now d =
          (d, Inl (ApiError 404 ''RESOURCE_NOT_FOUND''))"
    by (simp add: createOrderFromCartController_def transaction_def createOrderFromCart_tx_def)
next
  fix c assume a: "cart_findFirstActive uid d = Some c \<and>
            (\<forall>it \<in> set (cartItems d). ciCartId it \<noteq> cartId c)"
  then have "filter (\<lambda>it. ciCartId it = cartId c) (cartItems d) = []"
    by (auto simp: filter_empty_conv)
  with a show "createOrderFromCartController (Some uid) now d =
          (d, Inl (ApiError 422 ''UNPROCESSABLE_ENTITY''))"
    by (simp add: createOrderFromCartController_def transaction_def createOrderFromCart_tx_def)
next
  fix c it bk
  assume a: "cart_findFirstActive uid d = Some c \<and>
            it \<in> set (cartItems d) \<and> ciCartId it = cartId c \<and>
            books d (ciBookId it) = Some bk \<and>
            (bookDeletedAt bk \<noteq> None \<or> bookStock bk < ciQuantity it)"
  then obtain e where "createOrderFromCart_tx uid now d = Inl e"
     "e = ApiError 422 ''UNPROCESSABLE_ENTITY'' \<or> e = PrismaError ''INCONSISTENT''"
    using checkout_invalid_line[of uid d c it bk now] by blast
  then show "\<exists>e. createOrderFromCartController (Some uid) now d = (d, Inl e) \<and>
             (e = ApiError 422 ''UNPROCESSABLE_ENTITY'' \<or> e = PrismaError ''INCONSISTENT'')"
    by (simp add: createOrderFromCartController_def transaction_def)
qed

text \<open>
  The checkout of the cart with one line in stock and one line out of stock aborts
  with 422 and leaves the database, the stock of the in-stock book included, as it was.
\<close>

theorem checkout_atomic_witness:
  "snd (createOrderFromCartController (Some 7) 20 dbShortStock) =
     Inl (ApiError 422 ''UNPROCESSABLE_ENTITY'')
   \<and> fst (createOrderFromCartController (Some 7) 20 dbShortStock) = dbShortStock"
proof -
  have r: "snd (createOrderFromCartController (Some 7) 20 dbShortStock) =
             Inl (ApiError 422 ''UNPROCESSABLE_ENTITY'')"
    by (simp add: createOrderFromCartController_def transaction_def
          createOrderFromCart_tx_def cart_findFirstActive_def dbShortStock_def emptyDb_def)
  with checkout_atomic[of "Some 7" 20 dbShortStock 7] show ?thesis by blast
qed

section \<open>A successful checkout\<close>



section \<open>Adding to the cart\<close>

lemma getOrCreateActiveCart_books [simp]:
  "books (fst (getOrCreateActiveCart uid now d)) = books d"
  by (simp add: getOrCreateActiveCart_def cart_create_def Let_def split: option.splits)

lemma getOrCreateActiveCart_cartItems [simp]:
  "cartItems (fst (getOrCreateActiveCart uid now d)) = cartItems d"
  by (simp add: getOrCreateActiveCart_def cart_create_def Let_def split: option.splits)

lemma parseQuantity_Inr_iff:
  "parseQuantity v = Inr n \<longleftrightarrow> v = Num (of_int n) \<and> 1 \<le> n \<and> n \<le> 999"
  by (cases v) (auto simp: parseQuantity_def isInteger_def)

lemma parseQuantity_out_of_range:
  "\<forall>q. quantity = Num q \<longrightarrow> q < 1 \<or> 999 < q \<Longrightarrow>
     parseQuantity quantity = Inl (ApiError 400 ''VALIDATION_FAILED'')"
  by (cases quantity) (auto simp: parseQuantity_def)

lemma parseId_Inl: "parseId p = Inl e \<Longrightarrow> e = ApiError 400 ''BAD_REQUEST''"
  by (cases p) (auto simp: parseId_def split: if_splits)

lemma book_findFirstLive_getOrCreate [simp]:
  "book_findFirstLive bId (fst (getOrCreateActiveCart uid now d)) = book_findFirstLive bId d"
  by (simp add: book_findFirstLive_def)

lemma cartItem_findUnique_getOrCreate [simp]:
  "cartItem_findUnique cid bId (fst (getOrCreateActiveCart uid now d)) = cartItem_findUnique cid bId d"
  by (simp add: cartItem_findUnique_def)

lemma find_None_no_key:
  "find (\<lambda>it. ciCartId it = cid \<and> ciBookId it = bid) xs = None \<longleftrightarrow>
     \<not> (\<exists>it \<in> set xs. ciCartId it = cid \<and> ciBookId it = bid)"
  by (auto simp: find_None_iff)

lemma map_unitPrice_update:
  "map ciUnitPrice (map (\<lambda>it. if P it then it\<lparr> ciQuantity := n, ciUpdatedAt := t \<rparr> else it) xs)
     = map ciUnitPrice xs"
  by (induction xs) auto

text \<open>
  Claim C7. With \<open>c\<close> the cart that \<open>getOrCreateActiveCart\<close> yields: a quantity that is
  not a number in [1, 999] is rejected with status 400 and the database untouched
  (VALIDATION_FAILED whenever the book id itself parses; an unparsable book id is
  reported first, as BAD_REQUEST). For a valid quantity \<open>q\<close> of a live book with at
  least \<open>q\<close> in stock: if the cart has no line for the book, one is appended with
  the book's current price as unit price; if it has one, the call is rejected with 422
  when existing quantity plus \<open>q\<close> exceeds the stock, and otherwise only the
  quantity (and update time) of that line changes: every line keeps its unit price.
\<close>

theorem addItem_behaviour:
  assumes goc: "getOrCreateActiveCart uid now d = (d1, c)"
  shows
   "((\<forall>q. quantity = Num q \<longrightarrow> q < 1 \<or> 999 < q) \<longrightarrow>
       (\<exists>e. addCartItemController (Some uid) bookId quantity now d = (d, Inl e) \<and>
            (e = ApiError 400 ''VALIDATION_FAILED'' \<or> e = ApiError 400 ''BAD_REQUEST'')) \<and>
       (\<forall>bId. parseId bookId = Inr bId \<longrightarrow>
          addCartItemController (Some uid) bookId quantity now d =
            (d, Inl (ApiError 400 ''VALIDATION_FAILED''))))
    \<and> (\<forall>bId q bk. parseId bookId = Inr bId \<and> parseQuantity quantity = Inr q \<and>
          book_findFirstLive bId d = Some bk \<and> q \<le> bookStock bk \<longrightarrow>
        (cartItem_findUnique (cartId c) bId d = None \<longrightarrow>
           addCartItemController (Some uid) bookId quantity now d =
             (d1\<lparr> cartItems := cartItems d @
                    [\<lparr> ciCartId = cartId c, ciBookId = bId, ciQuantity = q,
                       ciUnitPrice = bookPrice bk, ciCreatedAt = now, ciUpdatedAt = now \<rparr>] \<rparr>,
              Inr (cartId c,
                   \<lparr> ciCartId = cartId c, ciBookId = bId, ciQuantity = q,
                     ciUnitPrice = bookPrice bk, ciCreatedAt = now, ciUpdatedAt = now \<rparr>)))
        \<and> (\<forall>existing. cartItem_findUnique (cartId c) bId d = Some existing \<longrightarrow>
             (bookStock bk < ciQuantity existing + q \<longrightarrow>
                addCartItemController (Some uid) bookId quantity now d =
                  (d1, Inl (ApiError 422 ''UNPROCESSABLE_ENTITY'')))
           \<and> (ciQuantity existing + q \<le> bookStock bk \<longrightarrow>
                (\<exists>d2. addCartItemController (Some uid) bookId quantity now d =
                         (d2, Inr (cartId c,
                                   existing\<lparr> ciQuantity := ciQuantity existing + q,
                                             ciUpdatedAt := now \<rparr>)) \<and>
                      cartItems d2 =
                        map (\<lambda>it. if ciCartId it = cartId c \<and> ciBookId it = bId
                                  then it\<lparr> ciQuantity := ciQuantity existing + q,
                                           ciUpdatedAt := now \<rparr>
                                  else it) (cartItems d) \<and>
                      map ciUnitPrice (cartItems d2) = map ciUnitPrice (cartItems d)))))"
proof -
  have d1: "fst (getOrCreateActiveCart uid now d) = d1" using goc by simp
  have bks: "\<And>b. book_findFirstLive b d1 = book_findFirstLive b d"
    using book_findFirstLive_getOrCreate[of _ uid now d] d1 by simp
  have fu: "\<And>cid b. cartItem_findUnique cid b d1 = cartItem_findUnique cid b d"
    using cartItem_findUnique_getOrCreate[of _ _ uid now d] d1 by simp
  have ci: "cartItems d1 = cartItems d"
    using getOrCreateActiveCart_cartItems[of uid now d] d1 by simp
  show ?thesis
  proof (intro conjI allI impI)
    assume "\<forall>q. quantity = Num q \<longrightarrow> q < 1 \<or> 999 < q"
    then have pq: "parseQuantity quantity = Inl (ApiError 400 ''VALIDATION_FAILED'')"
      by (rule parseQuantity_out_of_range)
    show "\<exists>e. addCartItemController (Some uid) bookId quantity now d = (d, Inl e) \<and>
            (e = ApiError 400 ''VALIDATION_FAILED'' \<or> e = ApiError 400 ''BAD_REQUEST'')"
      using pq by (cases "parseId bookId") (auto simp: addCartItemController_def dest: parseId_Inl)
    fix bId assume "parseId bookId = Inr bId"
    then show "addCartItemController (Some uid) bookId quantity now d =
            (d, Inl (ApiError 400 ''VALIDATION_FAILED''))"
      using pq by (simp add: addCartItemController_def)
  next
    fix bId q bk
    assume a: "parseId bookId = Inr bId \<and> parseQuantity quantity = Inr q \<and>
          book_findFirstLive bId d = Some bk \<and> q \<le> bookStock bk"
    assume n: "cartItem_findUnique (cartId c) bId d = None"
    then have nk: "\<not> (\<exists>it \<in> set (cartItems d). ciCartId it = cartId c \<and> ciBookId it = bId)"
      by (simp add: cartItem_findUnique_def find_None_no_key)
    show "addCartItemController (Some uid) bookId quantity now d =
             (d1\<lparr> cartItems := cartItems d @
                    [\<lparr> ciCartId = cartId c, ciBookId = bId, ciQuantity = q,
                       ciUnitPrice = bookPrice bk, ciCreatedAt = now, ciUpdatedAt = now \<rparr>] \<rparr>,
              Inr (cartId c,
                   \<lparr> ciCartId = cartId c, ciBookId = bId, ciQuantity = q,
                     ciUnitPrice = bookPrice bk, ciCreatedAt = now, ciUpdatedAt = now \<rparr>))"
      using a n nk goc
      by (simp add: addCartItemController_def bks fu ci transaction_def addCartItem_tx_def
            cartItem_create_def Let_def)
  next
    fix bId q bk existing
    assume a: "parseId bookId = Inr bId \<and> parseQuantity quantity = Inr q \<and>
          book_findFirstLive bId d = Some bk \<and> q \<le> bookStock bk"
    assume e: "cartItem_findUnique (cartId c) bId d = Some existing"
    assume "bookStock bk < ciQuantity existing + q"
    then show "addCartItemController (Some uid) bookId quantity now d =
                  (d1, Inl (ApiError 422 ''UNPROCESSABLE_ENTITY''))"
      using a e goc
      by (simp add: addCartItemController_def bks fu ci transaction_def addCartItem_tx_def Let_def)
  next
    fix bId q bk existing
    assume a: "parseId bookId = Inr bId \<and> parseQuantity quantity = Inr q \<and>
          book_findFirstLive bId d = Some bk \<and> q \<le> bookStock bk"
    assume e: "cartItem_findUnique (cartId c) bId d = Some existing"
    assume le: "ciQuantity existing + q \<le> bookStock bk"
    from e have ex: "\<exists>it \<in> set (cartItems d). ciCartId it = cartId c \<and> ciBookId it = bId"
      using find_None_no_key[of "cartId c" bId "cartItems d"]
      by (simp add: cartItem_findUnique_def)
    let ?d2 = "d1\<lparr> cartItems := map (\<lambda>it. if ciCartId it = cartId c \<and> ciBookId it = bId
                                  then it\<lparr> ciQuantity := ciQuantity existing + q,
                                           ciUpdatedAt := now \<rparr>
                                  else it) (cartItems d) \<rparr>"
    have "addCartItemController (Some uid) bookId quantity now d =
            (?d2, Inr (cartId c, existing\<lparr> ciQuantity := ciQuantity existing + q,
                                             ciUpdatedAt := now \<rparr>))"
      using a e le ex goc
      by (simp add: addCartItemController_def bks fu ci transaction_def addCartItem_tx_def
            cartItem_update_def Let_def)
    then show "\<exists>d2. addCartItemController (Some uid) bookId quantity now d =
                         (d2, Inr (cartId c,
                                   existing\<lparr> ciQuantity := ciQuantity existing + q,
                                             ciUpdatedAt := now \<rparr>)) \<and>
                      cartItems d2 =
                        map (\<lambda>it. if ciCartId it = cartId c \<and> ciBookId it = bId
                                  then it\<lparr> ciQuantity := ciQuantity existing + q,
                                           ciUpdatedAt := now \<rparr>
                                  else it) (cartItems d) \<and>
                      map ciUnitPrice (cartItems d2) = map ciUnitPrice (cartItems d)"
      by (intro exI[of _ ?d2]) (simp add: map_unitPrice_update)
  qed
qed

text \<open>
  Two more copies added to the repriced cart: the line goes to quantity 5 and keeps its
  captured unit price 10000; a quantity of 1000 is rejected.
\<close>

theorem addItem_behaviour_witness:
  "\<exists>d2. addCartItemController (Some 7) (Num 1) (Num 2) 30 dbRepriced =
           (d2, Inr (1, \<lparr> ciCartId = 1, ciBookId = 1, ciQuantity = 5, ciUnitPrice = 10000,
                          ciCreatedAt = 11, ciUpdatedAt = 30 \<rparr>))
      \<and> map ciUnitPrice (cartItems d2) = [10000]
      \<and> addCartItemController (Some 7) (Num 1) (Num 1000) 30 dbRepriced =
           (dbRepriced, Inl (ApiError 400 ''VALIDATION_FAILED''))"
proof -
  let ?c = "\<lparr> cartId = 1, cartUserId = 7, cartStatus = ACTIVE, cartCreatedAt = 10 \<rparr>"
  let ?it = "\<lparr> ciCartId = 1, ciBookId = 1, ciQuantity = 3, ciUnitPrice = 10000,
               ciCreatedAt = 11, ciUpdatedAt = 11 \<rparr>"
  let ?bk = "\<lparr> bookTitle = ''Dune'', bookPrice = 12000, bookStock = 5,
               bookDeletedAt = None, bookAvgRating = 0, bookReviewCount = 0 \<rparr>"
  have goc: "getOrCreateActiveCart 7 30 dbRepriced = (dbRepriced, ?c)"
    by (simp add: getOrCreateActiveCart_def cart_findFirstActive_def dbRepriced_def emptyDb_def)
  have pid: "parseId (Num 1) = Inr 1" by (simp add: parseId_def isInteger_def)
  have pq: "parseQuantity (Num 2) = Inr 2" by (simp add: parseQuantity_def isInteger_def)
  have bk: "book_findFirstLive 1 dbRepriced = Some ?bk"
    by (simp add: book_findFirstLive_def dbRepriced_def emptyDb_def)
  have ex: "cartItem_findUnique (cartId ?c) 1 dbRepriced = Some ?it"
    by (simp add: cartItem_findUnique_def dbRepriced_def emptyDb_def)
  have bad: "\<forall>q. Num 1000 = Num q \<longrightarrow> q < 1 \<or> 999 < q" by simp
  from addItem_behaviour[OF goc, of "Num 2" "Num 1"] pid pq bk ex
  obtain d2 where
    a: "addCartItemController (Some 7) (Num 1) (Num 2) 30 dbRepriced =
          (d2, Inr (cartId ?c, ?it\<lparr> ciQuantity := ciQuantity ?it + 2, ciUpdatedAt := 30 \<rparr>))"
    and p: "map ciUnitPrice (cartItems d2) = map ciUnitPrice (cartItems dbRepriced)"
    by force
  from addItem_behaviour[OF goc, of "Num 1000" "Num 1"] bad pid
  have r: "addCartItemController (Some 7) (Num 1) (Num 1000) 30 dbRepriced =
           (dbRepriced, Inl (ApiError 400 ''VALIDATION_FAILED''))" by blast
  have p': "map ciUnitPrice (cartItems d2) = [10000]"
    using p by (simp add: dbRepriced_def emptyDb_def)
  show ?thesis using a p' r by (intro exI[of _ d2]) simp
qed

section \<open>Listing the cart\<close>



section \<open>Invariants of request sequences\<close>

lemma book_findFirstLive_Some: "book_findFirstLive b d = Some bk \<Longrightarrow> books d b = Some bk"
  by (auto simp: book_findFirstLive_def split: option.splits if_splits)

lemma cartStep_preserves:
  assumes goc: "\<And>uid now d. I d \<Longrightarrow> I (fst (getOrCreateActiveCart uid now d))"
    and cr: "\<And>x d d'. I d \<Longrightarrow> books d (ciBookId x) \<noteq> None \<Longrightarrow>
               cartItem_create x d = Inr d' \<Longrightarrow> I d'"
    and up: "\<And>cid bid f d d'. I d \<Longrightarrow> (\<forall>it. cartItemKey (f it) = cartItemKey it) \<Longrightarrow>
               cartItem_update cid bid f d = Inr d' \<Longrightarrow> I d'"
    and de: "\<And>cid bid d. I d \<Longrightarrow> I (cartItem_deleteMany cid bid d)"
    and co: "\<And>uid now d d' r. I d \<Longrightarrow> createOrderFromCart_tx uid now d = Inr (d', r) \<Longrightarrow> I d'"
    and I: "I d"
  shows "I (cartStep r d)"
proof -
  obtain au now op where r: "r = (au, now, op)" by (cases r) auto
  show ?thesis
  proof (cases au)
    case None
    then show ?thesis using I r
      by (cases op)
         (simp_all add: listCartController_def addCartItemController_def
            updateCartItemController_def removeCartItemController_def
            createOrderFromCartController_def)
  next
    case (Some uid)
    obtain d1 c where g: "getOrCreateActiveCart uid now d = (d1, c)"
      by (cases "getOrCreateActiveCart uid now d") auto
    from goc[OF I, of uid now] g have I1: "I d1" by simp
    show ?thesis
    proof (cases op)
      case (ListCart p s)
      then show ?thesis using r Some g I1
        by (simp add: listCartController_def Let_def)
    next
      case (AddItem b q)
      have key: "\<And>n t. \<forall>it. cartItemKey (it\<lparr> ciQuantity := n, ciUpdatedAt := t \<rparr>) = cartItemKey it"
        by (simp add: cartItemKey_def)
      have "I (fst (addCartItemController (Some uid) b q now d))"
      proof (cases "parseId b")
        case (Inl e)
        then show ?thesis using I by (simp add: addCartItemController_def)
      next
        case pid: (Inr bId)
        show ?thesis
        proof (cases "parseQuantity q")
          case (Inl e)
          then show ?thesis using I pid by (simp add: addCartItemController_def)
        next
          case pq: (Inr qty)
          show ?thesis
          proof (cases "book_findFirstLive bId d1")
            case None
            then show ?thesis using I1 pid pq g by (simp add: addCartItemController_def)
          next
            case (Some bk)
            note bk = book_findFirstLive_Some[OF Some]
            show ?thesis
            proof (cases "bookStock bk < qty")
              case True
              then show ?thesis using I1 pid pq g Some by (simp add: addCartItemController_def)
            next
              case False
              have "I (fst (transaction (addCartItem_tx c bId qty bk now) d1))"
              proof (cases "addCartItem_tx c bId qty bk now d1")
                case (Inl e)
                then show ?thesis using I1 by (simp add: transaction_def)
              next
                case (Inr p)
                obtain d2 res where p: "p = (d2, res)" by (cases p) auto
                have "I d2"
                proof (cases "cartItem_findUnique (cartId c) bId d1")
                  case None
                  with Inr p have "cartItem_create \<lparr> ciCartId = cartId c, ciBookId = bId, ciQuantity = qty,
                      ciUnitPrice = bookPrice bk, ciCreatedAt = now, ciUpdatedAt = now \<rparr> d1 = Inr d2"
                    by (auto simp: addCartItem_tx_def Let_def split: sum.splits)
                  from cr[OF I1 _ this] bk show ?thesis by simp
                next
                  case (Some existing)
                  with Inr p have "cartItem_update (cartId c) bId
                        (\<lambda>it. it\<lparr> ciQuantity := ciQuantity existing + qty, ciUpdatedAt := now \<rparr>) d1 = Inr d2"
                    by (auto simp: addCartItem_tx_def Let_def split: sum.splits if_splits)
                  from up[OF I1 key this] show ?thesis .
                qed
                then show ?thesis using Inr p by (simp add: transaction_def)
              qed
              then show ?thesis using pid pq g Some False
                by (auto simp add: addCartItemController_def split: prod.splits sum.splits)
            qed
          qed
        qed
      qed
      then show ?thesis using r Some AddItem by simp
    next
      case (UpdateItem b q)
      have key: "\<And>n t. \<forall>it. cartItemKey (it\<lparr> ciQuantity := n, ciUpdatedAt := t \<rparr>) = cartItemKey it"
        by (simp add: cartItemKey_def)
      have "I (fst (updateCartItemController (Some uid) b q now d))"
      proof (cases "parseId b")
        case (Inl e)
        then show ?thesis using I by (simp add: updateCartItemController_def)
      next
        case pid: (Inr bId)
        show ?thesis
        proof (cases "parseQuantity q")
          case (Inl e)
          then show ?thesis using I pid by (simp add: updateCartItemController_def)
        next
          case pq: (Inr qty)
          show ?thesis
          proof (cases "cartItem_update (cartId c) bId
                          (\<lambda>it. it\<lparr> ciQuantity := qty, ciUpdatedAt := now \<rparr>) d1")
            case (Inl e)
            then show ?thesis using I1 pid pq g
              by (simp add: updateCartItemController_def split: option.splits)
          next
            case (Inr d2)
            from up[OF I1 key Inr] have "I d2" .
            then show ?thesis using I1 pid pq g Inr
              by (simp add: updateCartItemController_def split: option.splits)
          qed
        qed
      qed
      then show ?thesis using r Some UpdateItem by simp
    next
      case (RemoveItem b)
      have "I (fst (removeCartItemController (Some uid) b now d))"
        using I g de[OF I1, of "cartId c"]
        by (cases "parseId b") (simp_all add: removeCartItemController_def)
      then show ?thesis using r Some RemoveItem by simp
    next
      case Checkout
      have "I (fst (createOrderFromCartController (Some uid) now d))"
      proof (cases "createOrderFromCart_tx uid now d")
        case (Inl e)
        then show ?thesis using I by (simp add: createOrderFromCartController_def transaction_def)
      next
        case (Inr p)
        obtain d2 res where p: "p = (d2, res)" by (cases p) auto
        from co[OF I Inr[unfolded p]] show ?thesis
          using Inr p by (simp add: createOrderFromCartController_def transaction_def)
      qed
      then show ?thesis using r Some Checkout by simp
    qed
  qed
qed

lemma runCart_preserves:
  assumes goc: "\<And>uid now d. I d \<Longrightarrow> I (fst (getOrCreateActiveCart uid now d))"
    and cr: "\<And>x d d'. I d \<Longrightarrow> books d (ciBookId x) \<noteq> None \<Longrightarrow>
               cartItem_create x d = Inr d' \<Longrightarrow> I d'"
    and up: "\<And>cid bid f d d'. I d \<Longrightarrow> (\<forall>it. cartItemKey (f it) = cartItemKey it) \<Longrightarrow>
               cartItem_update cid bid f d = Inr d' \<Longrightarrow> I d'"
    and de: "\<And>cid bid d. I d \<Longrightarrow> I (cartItem_deleteMany cid bid d)"
    and co: "\<And>uid now d d' r. I d \<Longrightarrow> createOrderFromCart_tx uid now d = Inr (d', r) \<Longrightarrow> I d'"
  shows "I d \<Longrightarrow> I (runCart rs d)"
proof (induction rs arbitrary: d)
  case Nil
  then show ?case by simp
next
  case (Cons r rs)
  have "I (cartStep r d)"
    by (rule cartStep_preserves[where I = I, OF goc cr up de co Cons.prems])
  from Cons.IH[OF this] show ?case by simp
qed


lemma getOrCreateActiveCart_cases:
  "fst (getOrCreateActiveCart uid now d) = d
   \<or> (cart_findFirstActive uid d = None \<and>
      fst (getOrCreateActiveCart uid now d) =
        d\<lparr> carts := carts d @ [\<lparr> cartId = nextCartId d, cartUserId = uid,
                                   cartStatus = ACTIVE, cartCreatedAt = now \<rparr>],
           nextCartId := Suc (nextCartId d) \<rparr>)"
  by (simp add: getOrCreateActiveCart_def cart_create_def Let_def split: option.splits)

lemma cartItem_create_Inr:
  "cartItem_create x d = Inr d' \<Longrightarrow>
     d' = d\<lparr> cartItems := cartItems d @ [x] \<rparr> \<and>
     cartItemKey x \<notin> cartItemKey ` set (cartItems d)"
  by (auto simp: cartItem_create_def cartItemKey_def split: if_splits)

lemma cartItem_update_Inr:
  "cartItem_update cid bid f d = Inr d' \<Longrightarrow>
     d' = d\<lparr> cartItems :=
             map (\<lambda>it. if ciCartId it = cid \<and> ciBookId it = bid then f it else it)
               (cartItems d) \<rparr>"
  by (auto simp: cartItem_update_def split: if_splits)

lemma map_key_update:
  "\<forall>it. cartItemKey (f it) = cartItemKey it \<Longrightarrow>
     map cartItemKey (map (\<lambda>it. if P it then f it else it) xs) = map cartItemKey xs"
  by (induction xs) auto

lemma key_bookId: "cartItemKey x = cartItemKey y \<Longrightarrow> ciBookId x = ciBookId y"
  by (simp add: cartItemKey_def)

lemma dbConstraints_getOrCreate:
  assumes "dbConstraints d"
  shows "dbConstraints (fst (getOrCreateActiveCart uid now d))"
proof -
  let ?c = "\<lparr> cartId = nextCartId d, cartUserId = uid, cartStatus = ACTIVE, cartCreatedAt = now \<rparr>"
  have "dbConstraints (d\<lparr> carts := carts d @ [?c], nextCartId := Suc (nextCartId d) \<rparr>)"
    using assms unfolding dbConstraints_def by (auto simp: less_Suc_eq)
  with assms getOrCreateActiveCart_cases[of uid now d] show ?thesis by auto
qed

lemma dbConstraints_cartItem_create:
  assumes "dbConstraints d" "books d (ciBookId x) \<noteq> None" "cartItem_create x d = Inr d'"
  shows "dbConstraints d'"
proof -
  from cartItem_create_Inr[OF assms(3)]
  have d': "d' = d\<lparr> cartItems := cartItems d @ [x] \<rparr>"
    and fresh: "cartItemKey x \<notin> cartItemKey ` set (cartItems d)" by auto
  show ?thesis using assms(1,2) fresh unfolding dbConstraints_def d' by auto
qed

lemma dbConstraints_cartItem_update:
  assumes "dbConstraints d" "\<forall>it. cartItemKey (f it) = cartItemKey it"
    "cartItem_update cid bid f d = Inr d'"
  shows "dbConstraints d'"
proof -
  let ?xs = "map (\<lambda>it. if ciCartId it = cid \<and> ciBookId it = bid then f it else it) (cartItems d)"
  from cartItem_update_Inr[OF assms(3)] have d': "d' = d\<lparr> cartItems := ?xs \<rparr>" .
  have k: "map cartItemKey ?xs = map cartItemKey (cartItems d)"
    using assms(2) by (rule map_key_update)
  have fk: "\<forall>it \<in> set ?xs. books d (ciBookId it) \<noteq> None"
  proof
    fix it assume "it \<in> set ?xs"
    then obtain y where y: "y \<in> set (cartItems d)"
      and "it = (if ciCartId y = cid \<and> ciBookId y = bid then f y else y)" by auto
    then have "cartItemKey it = cartItemKey y" using assms(2) by auto
    then have "ciBookId it = ciBookId y" by (rule key_bookId)
    with y assms(1) show "books d (ciBookId it) \<noteq> None" by (simp add: dbConstraints_def)
  qed
  have ci: "cartItems d' = ?xs" and rest: "books d' = books d" "orderItems d' = orderItems d"
    "nextOrderId d' = nextOrderId d" "carts d' = carts d" "nextCartId d' = nextCartId d"
    "orders d' = orders d"
    by (simp_all add: d')
  have 1: "distinct (map cartItemKey (cartItems d'))"
    using assms(1) by (simp only: ci k) (simp add: dbConstraints_def)
  have 2: "\<forall>it \<in> set (cartItems d'). books d' (ciBookId it) \<noteq> None"
    using fk by (simp only: ci rest)
  show ?thesis
    unfolding dbConstraints_def
    using 1 2 assms(1)[unfolded dbConstraints_def] by (simp only: rest) blast
qed

lemma dbConstraints_cartItem_deleteMany:
  assumes "dbConstraints d"
  shows "dbConstraints (cartItem_deleteMany cid bid d)"
  using assms unfolding dbConstraints_def cartItem_deleteMany_def
  by (auto simp: distinct_map_filter)

lemma decrementStocks_None [simp]: "decrementStocks ls m b = None \<longleftrightarrow> m b = None"
  by (simp add: decrementStocks_apply)

lemma dbConstraints_checkout:
  assumes inv: "dbConstraints d" and tx: "createOrderFromCart_tx uid now d = Inr (d', r)"
  shows "dbConstraints d'"
proof -
  from createOrderFromCart_tx_Inr[OF tx] obtain c ls where
    c: "cart_findFirstActive uid d = Some c"
    and d': "d' = d\<lparr> orders := orders d @ [newOrder uid c ls now d],
                      nextOrderId := Suc (nextOrderId d),
                      orderItems := orderItems d @ map (toOrderItem (nextOrderId d)) ls,
                      books := decrementStocks ls (books d),
                      carts := checkedOut c (carts d) \<rparr>"
    by blast
  note cin = cart_findFirstActive_Some[OF c]
  have 1: "distinct (map cartItemKey (cartItems d'))" using inv by (simp add: d' dbConstraints_def)
  have 2: "\<forall>it \<in> set (cartItems d'). books d' (ciBookId it) \<noteq> None"
    using inv by (simp add: d' dbConstraints_def)
  have 3: "\<forall>oi \<in> set (orderItems d'). oiOrderId oi < nextOrderId d'"
    using inv by (auto simp: d' dbConstraints_def toOrderItem_def less_Suc_eq)
  have 4: "\<forall>x \<in> set (carts d'). cartId x < nextCartId d'"
    using inv by (auto simp: d' dbConstraints_def checkedOut_def)
  have 5: "\<forall>r \<in> set (orders d'). \<forall>cid. orderCartId r = Some cid \<longrightarrow>
         cid < nextCartId d' \<and> (\<forall>x \<in> set (carts d'). cartId x = cid \<longrightarrow> cartStatus x \<noteq> ACTIVE)"
  proof (intro ballI allI impI)
    fix r cid assume r: "r \<in> set (orders d')" and cid: "orderCartId r = Some cid"
    from r have "r \<in> set (orders d) \<or> r = newOrder uid c ls now d" by (auto simp: d')
    then show "cid < nextCartId d' \<and> (\<forall>x \<in> set (carts d'). cartId x = cid \<longrightarrow> cartStatus x \<noteq> ACTIVE)"
    proof
      assume "r \<in> set (orders d)"
      with inv cid have "cid < nextCartId d"
        and "\<forall>x \<in> set (carts d). cartId x = cid \<longrightarrow> cartStatus x \<noteq> ACTIVE"
        by (auto simp: dbConstraints_def)
      then show ?thesis by (auto simp: d' checkedOut_def)
    next
      assume "r = newOrder uid c ls now d"
      with cid have "cid = cartId c" by (simp add: newOrder_def)
      with cin inv show ?thesis by (auto simp: d' checkedOut_def dbConstraints_def)
    qed
  qed
  show ?thesis unfolding dbConstraints_def using 1 2 3 4 5 by blast
qed

lemma dbConstraints_runCart: "dbConstraints d \<Longrightarrow> dbConstraints (runCart rs d)"
  by (rule runCart_preserves[where I = dbConstraints])
     (auto intro: dbConstraints_getOrCreate dbConstraints_cartItem_create
        dbConstraints_cartItem_update dbConstraints_cartItem_deleteMany dbConstraints_checkout)


lemma cart_findFirstActive_None: "cart_findFirstActive uid d = None \<Longrightarrow> activeCartsOf uid d = []"
  by (auto simp: cart_findFirstActive_def activeCartsOf_def find_None_iff filter_empty_conv)

lemma length_filter_checkedOut:
  "length (filter (\<lambda>x. cartUserId x = u \<and> cartStatus x = ACTIVE) (checkedOut c cs))
     \<le> length (filter (\<lambda>x. cartUserId x = u \<and> cartStatus x = ACTIVE) cs)"
  by (induction cs) (auto simp: checkedOut_def)

lemma oneActive_getOrCreate:
  assumes "\<forall>u. length (activeCartsOf u d) \<le> 1"
  shows "\<forall>u. length (activeCartsOf u (fst (getOrCreateActiveCart uid now d))) \<le> 1"
proof
  fix u
  from getOrCreateActiveCart_cases[of uid now d]
  show "length (activeCartsOf u (fst (getOrCreateActiveCart uid now d))) \<le> 1"
  proof
    assume "fst (getOrCreateActiveCart uid now d) = d"
    with assms show ?thesis by simp
  next
    assume a: "cart_findFirstActive uid d = None \<and>
      fst (getOrCreateActiveCart uid now d) =
        d\<lparr> carts := carts d @ [\<lparr> cartId = nextCartId d, cartUserId = uid,
                                   cartStatus = ACTIVE, cartCreatedAt = now \<rparr>],
           nextCartId := Suc (nextCartId d) \<rparr>"
    then have e: "activeCartsOf uid d = []" by (simp add: cart_findFirstActive_None)
    show ?thesis
    proof (cases "u = uid")
      case True
      with a e show ?thesis by (simp add: activeCartsOf_def)
    next
      case False
      with a assms[rule_format, of u] show ?thesis by (simp add: activeCartsOf_def)
    qed
  qed
qed

lemma oneActive_runCart:
  "\<forall>u. length (activeCartsOf u d) \<le> 1 \<Longrightarrow> \<forall>u. length (activeCartsOf u (runCart rs d)) \<le> 1"
proof (rule runCart_preserves[where I = "\<lambda>d. \<forall>u. length (activeCartsOf u d) \<le> 1"])
  fix uid now d assume "\<forall>u. length (activeCartsOf u d) \<le> 1"
  then show "\<forall>u. length (activeCartsOf u (fst (getOrCreateActiveCart uid now d))) \<le> 1"
    by (rule oneActive_getOrCreate)
next
  fix x d d' assume "\<forall>u. length (activeCartsOf u d) \<le> 1" "cartItem_create x d = Inr d'"
  then show "\<forall>u. length (activeCartsOf u d') \<le> 1"
    by (auto simp: activeCartsOf_def dest!: cartItem_create_Inr)
next
  fix cid bid f d d'
  assume "\<forall>u. length (activeCartsOf u d) \<le> 1" "cartItem_update cid bid f d = Inr d'"
  then show "\<forall>u. length (activeCartsOf u d') \<le> 1"
    by (auto simp: activeCartsOf_def dest!: cartItem_update_Inr)
next
  fix cid bid d assume "\<forall>u. length (activeCartsOf u d) \<le> 1"
  then show "\<forall>u. length (activeCartsOf u (cartItem_deleteMany cid bid d)) \<le> 1"
    by (simp add: activeCartsOf_def cartItem_deleteMany_def)
next
  fix uid now d d' r
  assume one: "\<forall>u. length (activeCartsOf u d) \<le> 1"
    and tx: "createOrderFromCart_tx uid now d = Inr (d', r)"
  from createOrderFromCart_tx_Inr[OF tx] obtain c where "carts d' = checkedOut c (carts d)"
    by auto
  then show "\<forall>u. length (activeCartsOf u d') \<le> 1"
    using one length_filter_checkedOut[of _ c "carts d"]
    by (auto simp: activeCartsOf_def intro: order_trans)
qed

text \<open>
  Claim C4. If every user has at most one ACTIVE cart, then after any sequence of cart
  requests (listCart, addItem, updateItem, removeItem, checkout, by any users, served one
  after the other) the query for a user's ACTIVE carts still yields at most one row.
\<close>

theorem one_active_cart_per_user:
  assumes "\<forall>u. length (activeCartsOf u d) \<le> 1"
  shows "length (activeCartsOf userId (runCart rs d)) \<le> 1"
  using oneActive_runCart[OF assms] by blast

text \<open>
  Two users browsing, adding, editing and buying from the one-book catalogue: user 7 ends
  with the cart that was checked out and a fresh ACTIVE one, user 8 with one ACTIVE cart.
\<close>

lemma browseAndBuy_carts:
  "map (\<lambda>c. (cartId c, cartUserId c, cartStatus c)) (carts (runCart browseAndBuy dbOneBook))
     = [(1, 7, CHECKED_OUT), (2, 8, ACTIVE), (3, 7, ACTIVE)]"
  by (simp add: browseAndBuy_def dbOneBook_def emptyDb_def
        listCartController_def addCartItemController_def updateCartItemController_def
        removeCartItemController_def cartItem_update_def cartItem_deleteMany_def
        parseId_def parseQuantity_def isInteger_def
        getOrCreateActiveCart_def cart_findFirstActive_def cart_create_def
        book_findFirstLive_def transaction_def addCartItem_tx_def cartItem_findUnique_def
        cartItem_create_def Let_def cartLines_def List.map_filter_def
        createOrderFromCartController_def createOrderFromCart_tx_def lineTotal_def
        order_create_def orderItem_create_def book_update_def cart_update_def)

theorem one_active_cart_per_user_witness:
  "map (\<lambda>c. (cartId c, cartUserId c, cartStatus c)) (carts (runCart browseAndBuy dbOneBook))
     = [(1, 7, CHECKED_OUT), (2, 8, ACTIVE), (3, 7, ACTIVE)]
   \<and> length (activeCartsOf 7 (runCart browseAndBuy dbOneBook)) \<le> 1
   \<and> length (activeCartsOf 8 (runCart browseAndBuy dbOneBook)) \<le> 1"
proof -
  have h: "\<forall>u. length (activeCartsOf u dbOneBook) \<le> 1"
    by (simp add: activeCartsOf_def dbOneBook_def emptyDb_def)
  from one_active_cart_per_user[OF h, of 7 browseAndBuy]
       one_active_cart_per_user[OF h, of 8 browseAndBuy] browseAndBuy_carts
  show ?thesis by blast
qed

section \<open>Stock\<close>

lemma ordered_toOrderItem:
  "(\<Sum>oi \<leftarrow> filter (\<lambda>oi. oiBookId oi = b) (map (toOrderItem oid) ls). oiQuantity oi)
     = lineQuantity b ls"
  by (induction ls) (auto simp: lineQuantity_def toOrderItem_def)

lemma lineQuantity_le_stock:
  assumes dist: "distinct (map (\<lambda>l. ciBookId (fst l)) ls)"
    and v: "validateItems ls = None"
    and b: "\<forall>l \<in> set ls. m (ciBookId (fst l)) = Some (snd l)"
    and bk: "m b = Some bk" and nn: "0 \<le> bookStock bk"
  shows "lineQuantity b ls \<le> bookStock bk"
proof (cases "b \<in> (\<lambda>l. ciBookId (fst l)) ` set ls")
  case True
  then obtain l where l: "l \<in> set ls" "ciBookId (fst l) = b" by auto
  from lineQuantity_distinct[OF dist l(1)] l have q: "lineQuantity b ls = ciQuantity (fst l)"
    by simp
  from b l bk have "snd l = bk" by auto
  with v l q show ?thesis by (auto simp: validateItems_None_iff)
next
  case False
  then have "lineQuantity b ls = 0" by (rule lineQuantity_notin)
  with nn show ?thesis by simp
qed

lemma stockNonneg_checkout:
  assumes inv: "dbConstraints d" and nn: "stockNonneg d"
    and tx: "createOrderFromCart_tx uid now d = Inr (d', r)"
  shows "stockNonneg d'"
proof -
  from createOrderFromCart_tx_Inr[OF tx] obtain c ls where
    ls: "includeBook d (filter (\<lambda>it. ciCartId it = cartId c) (cartItems d)) = Inr ls"
    and v: "validateItems ls = None"
    and d': "d' = d\<lparr> orders := orders d @ [newOrder uid c ls now d],
                      nextOrderId := Suc (nextOrderId d),
                      orderItems := orderItems d @ map (toOrderItem (nextOrderId d)) ls,
                      books := decrementStocks ls (books d),
                      carts := checkedOut c (carts d) \<rparr>"
    by blast
  from includeBook_Inr[OF ls]
  have m: "map fst ls = filter (\<lambda>it. ciCartId it = cartId c) (cartItems d)"
    and b: "\<forall>l \<in> set ls. books d (ciBookId (fst l)) = Some (snd l)" by auto
  have dist: "distinct (map (\<lambda>l. ciBookId (fst l)) ls)"
  proof -
    from inv have "distinct (map ciBookId (filter (\<lambda>it. ciCartId it = cartId c) (cartItems d)))"
      by (intro distinct_cart_books) (simp add: dbConstraints_def)
    with m have "distinct (map ciBookId (map fst ls))" by simp
    then show ?thesis by (simp add: comp_def)
  qed
  show ?thesis
    unfolding stockNonneg_def
  proof (intro allI impI)
    fix x bk' assume "books d' x = Some bk'"
    then obtain bk where bk: "books d x = Some bk"
      and bk': "bk' = bk\<lparr> bookStock := bookStock bk - lineQuantity x ls \<rparr>"
      by (auto simp: d' decrementStocks_apply)
    from nn bk have "0 \<le> bookStock bk" by (simp add: stockNonneg_def)
    from lineQuantity_le_stock[OF dist v b bk this] bk' show "0 \<le> bookStock bk'" by simp
  qed
qed

lemma stockNonneg_runCart:
  assumes "dbConstraints d" "stockNonneg d"
  shows "stockNonneg (runCart rs d)"
proof -
  have "dbConstraints (runCart rs d) \<and> stockNonneg (runCart rs d)"
  proof (rule runCart_preserves[where I = "\<lambda>d. dbConstraints d \<and> stockNonneg d"])
    fix uid now d assume "dbConstraints d \<and> stockNonneg d"
    then show "dbConstraints (fst (getOrCreateActiveCart uid now d)) \<and>
               stockNonneg (fst (getOrCreateActiveCart uid now d))"
      by (simp add: dbConstraints_getOrCreate stockNonneg_def)
  next
    fix x d d'
    assume "dbConstraints d \<and> stockNonneg d" "books d (ciBookId x) \<noteq> None"
      "cartItem_create x d = Inr d'"
    then show "dbConstraints d' \<and> stockNonneg d'"
      using dbConstraints_cartItem_create[of d x d'] cartItem_create_Inr[of x d d']
      by (auto simp: stockNonneg_def)
  next
    fix cid bid f d d'
    assume "dbConstraints d \<and> stockNonneg d" "\<forall>it. cartItemKey (f it) = cartItemKey it"
      "cartItem_update cid bid f d = Inr d'"
    then show "dbConstraints d' \<and> stockNonneg d'"
      using dbConstraints_cartItem_update[of d f cid bid d'] cartItem_update_Inr[of cid bid f d d']
      by (auto simp: stockNonneg_def)
  next
    fix cid bid d assume "dbConstraints d \<and> stockNonneg d"
    then show "dbConstraints (cartItem_deleteMany cid bid d) \<and>
               stockNonneg (cartItem_deleteMany cid bid d)"
      using dbConstraints_cartItem_deleteMany[of d cid bid]
      by (simp add: stockNonneg_def cartItem_deleteMany_def)
  next
    fix uid now d d' r
    assume "dbConstraints d \<and> stockNonneg d" "createOrderFromCart_tx uid now d = Inr (d', r)"
    then show "dbConstraints d' \<and> stockNonneg d'"
      using dbConstraints_checkout stockNonneg_checkout by blast
  next
    show "dbConstraints d \<and> stockNonneg d" using assms by simp
  qed
  then show ?thesis by simp
qed

lemma conserved_runCart: "conserved d0 (runCart rs d0)"
proof (rule runCart_preserves[where I = "conserved d0"])
  fix uid now d assume "conserved d0 d"
  then show "conserved d0 (fst (getOrCreateActiveCart uid now d))"
    by (simp add: conserved_def orderedQuantity_def getOrCreateActiveCart_def cart_create_def
          Let_def split: option.splits)
next
  fix x d d' assume "conserved d0 d" "cartItem_create x d = Inr d'"
  then show "conserved d0 d'"
    by (auto simp: conserved_def orderedQuantity_def dest!: cartItem_create_Inr)
next
  fix cid bid f d d' assume "conserved d0 d" "cartItem_update cid bid f d = Inr d'"
  then show "conserved d0 d'"
    by (auto simp: conserved_def orderedQuantity_def dest!: cartItem_update_Inr)
next
  fix cid bid d assume "conserved d0 d"
  then show "conserved d0 (cartItem_deleteMany cid bid d)"
    by (simp add: conserved_def orderedQuantity_def cartItem_deleteMany_def)
next
  fix uid now d d' r
  assume c: "conserved d0 d" and tx: "createOrderFromCart_tx uid now d = Inr (d', r)"
  from createOrderFromCart_tx_Inr[OF tx] obtain c ls where
    d': "d' = d\<lparr> orders := orders d @ [newOrder uid c ls now d],
                      nextOrderId := Suc (nextOrderId d),
                      orderItems := orderItems d @ map (toOrderItem (nextOrderId d)) ls,
                      books := decrementStocks ls (books d),
                      carts := checkedOut c (carts d) \<rparr>"
    by blast
  show "conserved d0 d'"
    unfolding conserved_def
  proof (intro allI impI)
    fix b bk assume "books d0 b = Some bk"
    with c obtain bk1 where bk1: "books d b = Some bk1"
      and eq: "bookStock bk1 + orderedQuantity b d = bookStock bk + orderedQuantity b d0"
      by (auto simp: conserved_def)
    have o: "orderedQuantity b d' = orderedQuantity b d + lineQuantity b ls"
      by (simp add: orderedQuantity_def d' ordered_toOrderItem)
    have "books d' b = Some (bk1\<lparr> bookStock := bookStock bk1 - lineQuantity b ls \<rparr>)"
      using bk1 by (simp add: d' decrementStocks_apply)
    with o eq show "\<exists>bk'. books d' b = Some bk' \<and>
           bookStock bk' + orderedQuantity b d' = bookStock bk + orderedQuantity b d0"
      by simp
  qed
next
  show "conserved d0 d0" by (simp add: conserved_def)
qed

lemma checkout_short_stock_422:
  assumes inv: "dbConstraints d"
    and c: "cart_findFirstActive uid d = Some c"
    and it: "it \<in> set (cartItems d)" "ciCartId it = cartId c"
    and bk: "books d (ciBookId it) = Some bk"
    and bad: "bookStock bk < ciQuantity it"
  shows "createOrderFromCartController (Some uid) now d =
           (d, Inl (ApiError 422 ''UNPROCESSABLE_ENTITY''))"
proof -
  from inv have "\<forall>it \<in> set (filter (\<lambda>it. ciCartId it = cartId c) (cartItems d)).
                   books d (ciBookId it) \<noteq> None"
    by (auto simp: dbConstraints_def)
  from includeBook_total[OF this] obtain ls where
    ls: "includeBook d (filter (\<lambda>it. ciCartId it = cartId c) (cartItems d)) = Inr ls" by blast
  from checkout_invalid_line_422[OF c ls it bk, of now] bad
  show ?thesis by (simp add: createOrderFromCartController_def transaction_def)
qed


lemma addCartItem_books: "books (fst (addCartItemController au b q now d)) = books d"
  by (auto simp: addCartItemController_def transaction_def addCartItem_tx_def Let_def
        cartItem_create_def cartItem_update_def getOrCreateActiveCart_def cart_create_def
      split: option.splits sum.splits prod.splits if_splits)

lemma addCartItem_over_stock:
  assumes pid: "parseId bookId = Inr bId" and pq: "parseQuantity quantity = Inr q"
    and bk: "book_findFirstLive bId d = Some bk"
    and over: "bookStock bk < q \<or>
               (\<exists>existing. cartItem_findUnique (cartId (snd (getOrCreateActiveCart uid now d))) bId d
                    = Some existing \<and> bookStock bk < ciQuantity existing + q)"
  shows "snd (addCartItemController (Some uid) bookId quantity now d) =
           Inl (ApiError 422 ''UNPROCESSABLE_ENTITY'')"
proof -
  obtain d1 c where g: "getOrCreateActiveCart uid now d = (d1, c)"
    by (cases "getOrCreateActiveCart uid now d") auto
  have d1: "fst (getOrCreateActiveCart uid now d) = d1" using g by simp
  have bks: "book_findFirstLive bId d1 = Some bk"
    using book_findFirstLive_getOrCreate[of bId uid now d] d1 bk by simp
  have fu: "cartItem_findUnique (cartId c) bId d1 = cartItem_findUnique (cartId c) bId d"
    using cartItem_findUnique_getOrCreate[of "cartId c" bId uid now d] d1 by simp
  show ?thesis
  proof (cases "bookStock bk < q")
    case True
    then show ?thesis using pid pq g bks by (simp add: addCartItemController_def)
  next
    case False
    with over g obtain existing where
      "cartItem_findUnique (cartId c) bId d = Some existing"
      "bookStock bk < ciQuantity existing + q" by auto
    then show ?thesis using False pid pq g bks fu
      by (simp add: addCartItemController_def transaction_def addCartItem_tx_def Let_def)
  qed
qed

text \<open>
  Claim C3. From a database that meets the schema's constraints and has no negative
  stock, after any sequence of cart requests: every book is still there, its stock is
  its initial stock minus the quantity ordered of it since (the order items created by
  the committed checkouts), and its stock is not negative. In the state reached, a
  checkout of a cart holding a line that asks for more than the book's stock is refused
  with 422 UNPROCESSABLE_ENTITY and changes nothing; and adding more than the stock to a
  cart (by the quantity itself or together with the line already there) is refused with
  422 and leaves every book as it was.
\<close>

theorem stock_never_negative:
  assumes inv: "dbConstraints d" and nn: "stockNonneg d"
  shows
   "(\<forall>b bk. books d b = Some bk \<longrightarrow>
       (\<exists>bk'. books (runCart rs d) b = Some bk' \<and>
              bookStock bk' =
                bookStock bk - (orderedQuantity b (runCart rs d) - orderedQuantity b d) \<and>
              0 \<le> bookStock bk'))
    \<and> (\<forall>uid now c it bk.
         cart_findFirstActive uid (runCart rs d) = Some c \<and>
         it \<in> set (cartItems (runCart rs d)) \<and> ciCartId it = cartId c \<and>
         books (runCart rs d) (ciBookId it) = Some bk \<and> bookStock bk < ciQuantity it \<longrightarrow>
         createOrderFromCartController (Some uid) now (runCart rs d) =
           (runCart rs d, Inl (ApiError 422 ''UNPROCESSABLE_ENTITY'')))
    \<and> (\<forall>uid now bookId quantity bId q bk.
         parseId bookId = Inr bId \<and> parseQuantity quantity = Inr q \<and>
         book_findFirstLive bId (runCart rs d) = Some bk \<and>
         (bookStock bk < q \<or>
          (\<exists>existing.
             cartItem_findUnique (cartId (snd (getOrCreateActiveCart uid now (runCart rs d)))) bId
               (runCart rs d) = Some existing \<and>
             bookStock bk < ciQuantity existing + q)) \<longrightarrow>
         snd (addCartItemController (Some uid) bookId quantity now (runCart rs d)) =
           Inl (ApiError 422 ''UNPROCESSABLE_ENTITY'') \<and>
         books (fst (addCartItemController (Some uid) bookId quantity now (runCart rs d))) =
           books (runCart rs d))"
proof (intro conjI allI impI)
  fix b bk assume bk: "books d b = Some bk"
  from conserved_runCart[of d rs] bk obtain bk' where
    bk': "books (runCart rs d) b = Some bk'"
    and eq: "bookStock bk' + orderedQuantity b (runCart rs d) = bookStock bk + orderedQuantity b d"
    by (auto simp: conserved_def)
  from stockNonneg_runCart[OF inv nn, of rs] bk' have "0 \<le> bookStock bk'"
    by (simp add: stockNonneg_def)
  with bk' eq show "\<exists>bk'. books (runCart rs d) b = Some bk' \<and>
              bookStock bk' =
                bookStock bk - (orderedQuantity b (runCart rs d) - orderedQuantity b d) \<and>
              0 \<le> bookStock bk'"
    by (intro exI[of _ bk']) simp
next
  fix uid now c it bk
  assume a: "cart_findFirstActive uid (runCart rs d) = Some c \<and>
         it \<in> set (cartItems (runCart rs d)) \<and> ciCartId it = cartId c \<and>
         books (runCart rs d) (ciBookId it) = Some bk \<and> bookStock bk < ciQuantity it"
  from dbConstraints_runCart[OF inv, of rs] a
  show "createOrderFromCartController (Some uid) now (runCart rs d) =
           (runCart rs d, Inl (ApiError 422 ''UNPROCESSABLE_ENTITY''))"
    by (intro checkout_short_stock_422[where c = c and it = it and bk = bk]) simp_all
next
  fix uid now bookId quantity bId q bk
  assume a: "parseId bookId = Inr bId \<and> parseQuantity quantity = Inr q \<and>
         book_findFirstLive bId (runCart rs d) = Some bk \<and>
         (bookStock bk < q \<or>
          (\<exists>existing.
             cartItem_findUnique (cartId (snd (getOrCreateActiveCart uid now (runCart rs d)))) bId
               (runCart rs d) = Some existing \<and>
             bookStock bk < ciQuantity existing + q))"
  then show "snd (addCartItemController (Some uid) bookId quantity now (runCart rs d)) =
           Inl (ApiError 422 ''UNPROCESSABLE_ENTITY'')"
    by (intro addCartItem_over_stock[where bId = bId and q = q and bk = bk]) simp_all
  show "books (fst (addCartItemController (Some uid) bookId quantity now (runCart rs d))) =
           books (runCart rs d)"
    by (rule addCartItem_books)
qed

text \<open>
  Three of five copies added and checked out: stock 2, quantity ordered 3; a further
  request for three copies is refused and the stock stays 2.
\<close>

lemma addThenCheckout_run:
  "runCart addThenCheckout dbOneBook =
     emptyDb
     \<lparr> books :=
         [1 \<mapsto> \<lparr> bookTitle = ''Dune'', bookPrice = 10000, bookStock = 2,
                  bookDeletedAt = None, bookAvgRating = 0, bookReviewCount = 0 \<rparr>],
       carts := [\<lparr> cartId = 1, cartUserId = 7, cartStatus = CHECKED_OUT, cartCreatedAt = 10 \<rparr>],
       nextCartId := 2,
       cartItems :=
         [\<lparr> ciCartId = 1, ciBookId = 1, ciQuantity = 3, ciUnitPrice = 10000,
            ciCreatedAt = 10, ciUpdatedAt = 10 \<rparr>],
       orders :=
         [\<lparr> orderId = 1, orderUserId = 7, orderCartId = Some 1, orderStatus = PENDING,
            orderPaymentStatus = UNPAID, orderTotalAmount = 30000, orderPlacedAt = Some 20,
            orderCreatedAt = 20 \<rparr>],
       nextOrderId := 2,
       orderItems :=
         [\<lparr> oiOrderId = 1, oiBookId = 1, oiQuantity = 3, oiUnitPrice = 10000,
            oiBookTitleSnapshot = ''Dune'' \<rparr>] \<rparr>"
  by (simp add: addThenCheckout_def dbOneBook_def emptyDb_def
        addCartItemController_def parseId_def parseQuantity_def isInteger_def
        getOrCreateActiveCart_def cart_findFirstActive_def cart_create_def
        book_findFirstLive_def transaction_def addCartItem_tx_def cartItem_findUnique_def
        cartItem_create_def Let_def
        createOrderFromCartController_def createOrderFromCart_tx_def lineTotal_def
        order_create_def orderItem_create_def book_update_def cart_update_def)

theorem stock_never_negative_witness:
  "map_option bookStock (books (runCart addThenCheckout dbOneBook) 1) = Some 2
   \<and> orderedQuantity 1 (runCart addThenCheckout dbOneBook) = 3
   \<and> snd (addCartItemController (Some 8) (Num 1) (Num 3) 30 (runCart addThenCheckout dbOneBook))
       = Inl (ApiError 422 ''UNPROCESSABLE_ENTITY'')
   \<and> map_option bookStock
        (books (fst (addCartItemController (Some 8) (Num 1) (Num 3) 30
                       (runCart addThenCheckout dbOneBook))) 1) = Some 2"
proof -
  let ?s = "runCart addThenCheckout dbOneBook"
  let ?bk = "\<lparr> bookTitle = ''Dune'', bookPrice = 10000, bookStock = 5,
               bookDeletedAt = None, bookAvgRating = 0, bookReviewCount = 0 \<rparr>"
  let ?bk2 = "\<lparr> bookTitle = ''Dune'', bookPrice = 10000, bookStock = 2,
               bookDeletedAt = None, bookAvgRating = 0, bookReviewCount = 0 \<rparr>"
  have inv: "dbConstraints dbOneBook"
    by (simp add: dbConstraints_def dbOneBook_def emptyDb_def)
  have nn: "stockNonneg dbOneBook"
    by (simp add: stockNonneg_def dbOneBook_def emptyDb_def)
  note T = stock_never_negative[OF inv nn, of addThenCheckout]
  have b0: "books dbOneBook 1 = Some ?bk" by (simp add: dbOneBook_def emptyDb_def)
  have o0: "orderedQuantity 1 dbOneBook = 0"
    by (simp add: orderedQuantity_def dbOneBook_def emptyDb_def)
  have o1: "orderedQuantity 1 ?s = 3"
    by (simp add: addThenCheckout_run orderedQuantity_def emptyDb_def)
  from T b0 obtain bk' where "books ?s 1 = Some bk'"
    "bookStock bk' = bookStock ?bk - (orderedQuantity 1 ?s - orderedQuantity 1 dbOneBook)"
    by blast
  then have 1: "map_option bookStock (books ?s 1) = Some 2" using o0 o1 by simp
  have pid: "parseId (Num 1) = Inr 1" by (simp add: parseId_def isInteger_def)
  have pq: "parseQuantity (Num 3) = Inr 3" by (simp add: parseQuantity_def isInteger_def)
  have live: "book_findFirstLive 1 ?s = Some ?bk2"
    by (simp add: addThenCheckout_run book_findFirstLive_def emptyDb_def)
  from T pid pq live
  have 2: "snd (addCartItemController (Some 8) (Num 1) (Num 3) 30 ?s)
             = Inl (ApiError 422 ''UNPROCESSABLE_ENTITY'')"
    and 3: "books (fst (addCartItemController (Some 8) (Num 1) (Num 3) 30 ?s)) = books ?s"
    by force+
  show ?thesis using 1 o1 2 3 by simp
qed

section \<open>Rating consistency\<close>

lemma transaction_Inl_eq: "transaction body d = (d', Inl e) \<Longrightarrow> d' = d"
  by (auto simp: transaction_def split: sum.splits prod.splits)

lemma transaction_Inr_eq: "transaction body d = (d', Inr r) \<Longrightarrow> body d = Inr (d', r)"
  by (auto simp: transaction_def split: sum.splits prod.splits)


















section \<open>Likes\<close>

lemma find_eq_None_iff: "find (\<lambda>l. l = k) xs = None \<longleftrightarrow> k \<notin> set xs"
  by (auto simp: find_None_iff)

lemma find_map_same:
  "(\<And>x. P (f x) = P x) \<Longrightarrow> find P (map f xs) = map_option f (find P xs)"
  by (induction xs) auto

lemma review_findFirstLive_update:
  assumes "review_update rid f d = Inr d'"
    and "\<And>r. reviewId (f r) = reviewId r" "\<And>r. reviewDeletedAt (f r) = reviewDeletedAt r"
  shows "review_findFirstLive k d' = map_option (\<lambda>r. if reviewId r = rid then f r else r)
                                        (review_findFirstLive k d)"
proof -
  from assms(1) have "reviews d' = map (\<lambda>r. if reviewId r = rid then f r else r) (reviews d)"
    by (auto simp: review_update_def split: if_splits)
  then show ?thesis
    unfolding review_findFirstLive_def
    by (simp add: find_map_same assms(2,3))
qed

lemma likeReview_tx_liked:
  "(uid, rid) \<in> set (reviewLikes d) \<Longrightarrow> likeReview_tx uid rid d = Inr (d, ())"
  by (cases "reviewLike_findUnique uid rid d")
     (simp_all add: likeReview_tx_def reviewLike_findUnique_def find_eq_None_iff)

lemma likeReview_tx_Inr:
  assumes "likeReview_tx uid rid d = Inr (d', u)"
  shows "(uid, rid) \<in> set (reviewLikes d') \<and>
         (review_findFirstLive rid d \<noteq> None \<longrightarrow> review_findFirstLive rid d' \<noteq> None) \<and>
         (distinct (reviewLikes d) \<longrightarrow> distinct (reviewLikes d'))"
proof (cases "(uid, rid) \<in> set (reviewLikes d)")
  case True
  with assms likeReview_tx_liked[OF True] show ?thesis by simp
next
  case False
  then have n: "reviewLike_findUnique uid rid d = None"
    by (simp add: reviewLike_findUnique_def find_eq_None_iff)
  with assms obtain d1 where c: "reviewLike_create uid rid d = Inr d1"
    and u: "review_update rid (\<lambda>r. r\<lparr> reviewLikeCount := reviewLikeCount r + 1 \<rparr>) d1 = Inr d'"
    by (auto simp: likeReview_tx_def split: sum.splits)
  from c False have d1: "d1 = d\<lparr> reviewLikes := reviewLikes d @ [(uid, rid)] \<rparr>"
    by (auto simp: reviewLike_create_def split: if_splits)
  from u have l: "reviewLikes d' = reviewLikes d1"
    by (auto simp: review_update_def split: if_splits)
  have "review_findFirstLive rid d1 = review_findFirstLive rid d"
    by (simp add: d1 review_findFirstLive_def)
  with review_findFirstLive_update[OF u, of rid]
  have "review_findFirstLive rid d \<noteq> None \<longrightarrow> review_findFirstLive rid d' \<noteq> None" by simp
  with l d1 False show ?thesis by simp
qed

lemma unlikeReview_tx_not_liked:
  assumes "(uid, rid) \<notin> set (reviewLikes d)"
  shows "unlikeReview_tx uid rid d = Inr (d, ())"
proof -
  from assms have "reviewLike_findUnique uid rid d = None"
    by (simp add: reviewLike_findUnique_def find_eq_None_iff)
  then show ?thesis by (simp add: unlikeReview_tx_def)
qed

lemma likeComment_tx_liked:
  "(uid, cid) \<in> set (commentLikes d) \<Longrightarrow> likeComment_tx uid cid d = Inr (d, ())"
  by (cases "commentLike_findUnique uid cid d")
     (simp_all add: likeComment_tx_def commentLike_findUnique_def find_eq_None_iff)

lemma likeComment_tx_Inr:
  assumes "likeComment_tx uid cid d = Inr (d', u)"
  shows "(uid, cid) \<in> set (commentLikes d') \<and>
         (distinct (commentLikes d) \<longrightarrow> distinct (commentLikes d'))"
proof (cases "(uid, cid) \<in> set (commentLikes d)")
  case True
  with assms likeComment_tx_liked[OF True] show ?thesis by simp
next
  case False
  then have n: "commentLike_findUnique uid cid d = None"
    by (simp add: commentLike_findUnique_def find_eq_None_iff)
  with assms obtain d1 where c: "commentLike_create uid cid d = Inr d1"
    and u: "comment_update cid (\<lambda>c. c\<lparr> commentLikeCount := commentLikeCount c + 1 \<rparr>) d1 = Inr d'"
    by (auto simp: likeComment_tx_def split: sum.splits)
  from c False have d1: "d1 = d\<lparr> commentLikes := commentLikes d @ [(uid, cid)] \<rparr>"
    by (auto simp: commentLike_create_def split: if_splits)
  from u have l: "commentLikes d' = commentLikes d1"
    by (auto simp: comment_update_def split: if_splits)
  with d1 False show ?thesis by simp
qed

lemma unlikeComment_tx_not_liked:
  assumes "(uid, cid) \<notin> set (commentLikes d)"
  shows "unlikeComment_tx uid cid d = Inr (d, ())"
proof -
  from assms have "commentLike_findUnique uid cid d = None"
    by (simp add: commentLike_findUnique_def find_eq_None_iff)
  then show ?thesis by (simp add: unlikeComment_tx_def)
qed

lemma likeReview_again:
  assumes p: "parseId p = Inr rid"
  shows "likeReviewController (Some uid) p (fst (likeReviewController (Some uid) p d))
           = likeReviewController (Some uid) p d
         \<or> (\<exists>d'. likeReviewController (Some uid) p d = (d', Inr ()) \<and>
                  likeReviewController (Some uid) p d' = (d', Inr ()))"
proof (cases "likeReviewController (Some uid) p d")
  case (Pair d' r)
  show ?thesis
  proof (cases r)
    case (Inl e)
    with Pair p have "d' = d"
      by (auto simp: likeReviewController_def split: option.splits dest: transaction_Inl_eq)
    with Pair show ?thesis by simp
  next
    case (Inr u)
    with Pair p obtain r0 where live: "review_findFirstLive rid d = Some r0"
      and tx: "likeReview_tx uid rid d = Inr (d', u)"
      by (auto simp: likeReviewController_def split: option.splits dest: transaction_Inr_eq)
    from likeReview_tx_Inr[OF tx] live
    have l: "(uid, rid) \<in> set (reviewLikes d')" and lv: "review_findFirstLive rid d' \<noteq> None"
      by auto
    from lv obtain r1 where "review_findFirstLive rid d' = Some r1" by auto
    with likeReview_tx_liked[OF l] p
    have "likeReviewController (Some uid) p d' = (d', Inr ())"
      by (simp add: likeReviewController_def transaction_def)
    with Pair Inr show ?thesis by simp
  qed
qed

lemma likeComment_again:
  assumes p: "parseId p = Inr cid"
  shows "likeCommentController (Some uid) p (fst (likeCommentController (Some uid) p d))
           = likeCommentController (Some uid) p d
         \<or> (\<exists>d'. likeCommentController (Some uid) p d = (d', Inr ()) \<and>
                  likeCommentController (Some uid) p d' = (d', Inr ()))"
proof (cases "likeCommentController (Some uid) p d")
  case (Pair d' r)
  show ?thesis
  proof (cases r)
    case (Inl e)
    with Pair p have "d' = d"
      by (auto simp: likeCommentController_def dest: transaction_Inl_eq)
    with Pair show ?thesis by simp
  next
    case (Inr u)
    with Pair p have tx: "likeComment_tx uid cid d = Inr (d', u)"
      by (auto simp: likeCommentController_def dest: transaction_Inr_eq)
    from likeComment_tx_Inr[OF tx] have l: "(uid, cid) \<in> set (commentLikes d')" by simp
    with likeComment_tx_liked[OF l] p
    have "likeCommentController (Some uid) p d' = (d', Inr ())"
      by (simp add: likeCommentController_def transaction_def)
    with Pair Inr show ?thesis by simp
  qed
qed


text \<open>
  Claim C6. For a target id that parses: liking a review that the user already likes
  leaves the database as it is; whatever a like call did, calling it again changes
  nothing more (no second row, no second increment) and succeeds if the first did; like
  rows stay free of duplicates; and unliking a review the user does not like changes
  nothing and returns success. The same holds for comments.
\<close>

theorem like_unlike_idempotent:
  assumes "parseId p = Inr tid"
  shows
   "((uid, tid) \<in> set (reviewLikes d) \<longrightarrow> fst (likeReviewController (Some uid) p d) = d)
    \<and> (\<forall>d1 r1. likeReviewController (Some uid) p d = (d1, r1) \<longrightarrow>
          fst (likeReviewController (Some uid) p d1) = d1 \<and>
          (r1 = Inr () \<longrightarrow> snd (likeReviewController (Some uid) p d1) = Inr ()))
    \<and> (distinct (reviewLikes d) \<longrightarrow>
          distinct (reviewLikes (fst (likeReviewController (Some uid) p d))))
    \<and> ((uid, tid) \<notin> set (reviewLikes d) \<longrightarrow>
          unlikeReviewController (Some uid) p d = (d, Inr ()))
    \<and> ((uid, tid) \<in> set (commentLikes d) \<longrightarrow>
          likeCommentController (Some uid) p d = (d, Inr ()))
    \<and> (\<forall>d1 r1. likeCommentController (Some uid) p d = (d1, r1) \<longrightarrow>
          fst (likeCommentController (Some uid) p d1) = d1 \<and>
          (r1 = Inr () \<longrightarrow> snd (likeCommentController (Some uid) p d1) = Inr ()))
    \<and> (distinct (commentLikes d) \<longrightarrow>
          distinct (commentLikes (fst (likeCommentController (Some uid) p d))))
    \<and> ((uid, tid) \<notin> set (commentLikes d) \<longrightarrow>
          unlikeCommentController (Some uid) p d = (d, Inr ()))"
proof (intro conjI allI impI)
  assume "(uid, tid) \<in> set (reviewLikes d)"
  from likeReview_tx_liked[OF this] assms
  show "fst (likeReviewController (Some uid) p d) = d"
    by (simp add: likeReviewController_def transaction_def split: option.splits)
next
  fix d1 r1 assume a: "likeReviewController (Some uid) p d = (d1, r1)"
  from likeReview_again[OF assms, of uid d] a
  show "fst (likeReviewController (Some uid) p d1) = d1" by auto
  assume "r1 = Inr ()"
  with likeReview_again[OF assms, of uid d] a
  show "snd (likeReviewController (Some uid) p d1) = Inr ()" by auto
next
  assume dist: "distinct (reviewLikes d)"
  show "distinct (reviewLikes (fst (likeReviewController (Some uid) p d)))"
  proof (cases "likeReviewController (Some uid) p d")
    case (Pair d' r)
    show ?thesis
    proof (cases r)
      case (Inl e)
      with Pair assms have "d' = d"
        by (auto simp: likeReviewController_def split: option.splits dest: transaction_Inl_eq)
      with Pair dist show ?thesis by simp
    next
      case (Inr u)
      with Pair assms have "likeReview_tx uid tid d = Inr (d', u)"
        by (auto simp: likeReviewController_def split: option.splits dest: transaction_Inr_eq)
      from likeReview_tx_Inr[OF this] dist Pair show ?thesis by simp
    qed
  qed
next
  assume "(uid, tid) \<notin> set (reviewLikes d)"
  from unlikeReview_tx_not_liked[OF this] assms
  show "unlikeReviewController (Some uid) p d = (d, Inr ())"
    by (simp add: unlikeReviewController_def transaction_def)
next
  assume "(uid, tid) \<in> set (commentLikes d)"
  from likeComment_tx_liked[OF this] assms
  show "likeCommentController (Some uid) p d = (d, Inr ())"
    by (simp add: likeCommentController_def transaction_def)
next
  fix d1 r1 assume a: "likeCommentController (Some uid) p d = (d1, r1)"
  from likeComment_again[OF assms, of uid d] a
  show "fst (likeCommentController (Some uid) p d1) = d1" by auto
  assume "r1 = Inr ()"
  with likeComment_again[OF assms, of uid d] a
  show "snd (likeCommentController (Some uid) p d1) = Inr ()" by auto
next
  assume dist: "distinct (commentLikes d)"
  show "distinct (commentLikes (fst (likeCommentController (Some uid) p d)))"
  proof (cases "likeCommentController (Some uid) p d")
    case (Pair d' r)
    show ?thesis
    proof (cases r)
      case (Inl e)
      with Pair assms have "d' = d"
        by (auto simp: likeCommentController_def dest: transaction_Inl_eq)
      with Pair dist show ?thesis by simp
    next
      case (Inr u)
      with Pair assms have "likeComment_tx uid tid d = Inr (d', u)"
        by (auto simp: likeCommentController_def dest: transaction_Inr_eq)
      from likeComment_tx_Inr[OF this] dist Pair show ?thesis by simp
    qed
  qed
next
  assume "(uid, tid) \<notin> set (commentLikes d)"
  from unlikeComment_tx_not_liked[OF this] assms
  show "unlikeCommentController (Some uid) p d = (d, Inr ())"
    by (simp add: unlikeCommentController_def transaction_def)
qed

text \<open>
  User 8 likes review 1 twice: one like row and a count of 1 after the first call, the
  same after the second; user 9, who never liked it, unlikes it to no effect.
\<close>

lemma like_review_run: "likeReviewController (Some 8) (Num 1) dbReviewed = (dbLiked, Inr ())"
  by (simp add: likeReviewController_def parseId_def isInteger_def review_findFirstLive_def
        transaction_def likeReview_tx_def reviewLike_findUnique_def reviewLike_create_def
        review_update_def dbLiked_def dbReviewed_def emptyDb_def)

theorem like_unlike_idempotent_witness:
  "likeReviewController (Some 8) (Num 1) dbReviewed = (dbLiked, Inr ())
   \<and> likeReviewController (Some 8) (Num 1) dbLiked = (dbLiked, Inr ())
   \<and> reviewLikes dbLiked = [(8, 1)]
   \<and> map reviewLikeCount (reviews dbLiked) = [1]
   \<and> unlikeReviewController (Some 9) (Num 1) dbLiked = (dbLiked, Inr ())"
proof -
  have pid: "parseId (Num 1) = Inr 1" by (simp add: parseId_def isInteger_def)
  from like_unlike_idempotent[OF pid, of 8 dbReviewed] like_review_run
  have "fst (likeReviewController (Some 8) (Num 1) dbLiked) = dbLiked"
    "snd (likeReviewController (Some 8) (Num 1) dbLiked) = Inr ()" by blast+
  then have 1: "likeReviewController (Some 8) (Num 1) dbLiked = (dbLiked, Inr ())"
    by (cases "likeReviewController (Some 8) (Num 1) dbLiked") simp
  have n: "(9, 1) \<notin> set (reviewLikes dbLiked)" by (simp add: dbLiked_def)
  from like_unlike_idempotent[OF pid, of 9 dbLiked] n
  have 2: "unlikeReviewController (Some 9) (Num 1) dbLiked = (dbLiked, Inr ())" by blast
  show ?thesis using like_review_run 1 2 by (simp add: dbLiked_def)
qed

section \<open>Liking what is soft-deleted\<close>

lemma findFirstLive_deleted:
  "distinct (map reviewId xs) \<Longrightarrow> find (\<lambda>r. reviewId r = rid) xs = Some r \<Longrightarrow>
     reviewDeletedAt r \<noteq> None \<Longrightarrow>
     find (\<lambda>r. reviewId r = rid \<and> reviewDeletedAt r = None) xs = None"
proof (induction xs)
  case Nil
  then show ?case by simp
next
  case (Cons x xs)
  show ?case
  proof (cases "reviewId x = rid")
    case True
    with Cons.prems have xr: "x = r" by simp
    from Cons.prems True have "rid \<notin> reviewId ` set xs" by auto
    then have "\<forall>y \<in> set xs. reviewId y \<noteq> rid" by auto
    then have "find (\<lambda>r. reviewId r = rid \<and> reviewDeletedAt r = None) xs = None"
      by (auto simp: find_None_iff)
    with xr Cons.prems(3) show ?thesis by simp
  next
    case False
    with Cons show ?thesis by simp
  qed
qed

text \<open>
  Claim C10. \<open>likeComment\<close> looks at the like row only: on a soft-deleted comment that
  the user has not liked it succeeds, adds the like row and increments the deleted
  comment's \<open>likeCount\<close>. \<open>likeReview\<close> on a soft-deleted review (review ids being
  unique) fails with 404 RESOURCE_NOT_FOUND and changes nothing.
\<close>

theorem likeComment_ignores_soft_delete:
  "(\<forall>cid c. parseId p = Inr cid \<and> comment_findUnique cid d = Some c \<and>
        commentDeletedAt c \<noteq> None \<and> (uid, cid) \<notin> set (commentLikes d) \<longrightarrow>
      (\<exists>d'. likeCommentController (Some uid) p d = (d', Inr ()) \<and>
            comment_findUnique cid d' =
              Some (c\<lparr> commentLikeCount := commentLikeCount c + 1 \<rparr>) \<and>
            commentLikes d' = commentLikes d @ [(uid, cid)]))
   \<and> (\<forall>rid r. parseId p = Inr rid \<and> distinct (map reviewId (reviews d)) \<and>
        review_findUnique rid d = Some r \<and> reviewDeletedAt r \<noteq> None \<longrightarrow>
      likeReviewController (Some uid) p d = (d, Inl (ApiError 404 ''RESOURCE_NOT_FOUND'')))"
proof (intro conjI allI impI)
  fix cid c
  assume a: "parseId p = Inr cid \<and> comment_findUnique cid d = Some c \<and>
        commentDeletedAt c \<noteq> None \<and> (uid, cid) \<notin> set (commentLikes d)"
  then have n: "commentLike_findUnique uid cid d = None"
    by (simp add: commentLike_findUnique_def find_eq_None_iff)
  from a have f: "find (\<lambda>c. commentId c = cid) (comments d) = Some c"
    by (simp add: comment_findUnique_def)
  then have ex: "\<exists>c \<in> set (comments d). commentId c = cid"
    by (auto simp: find_Some_iff)
  let ?f = "\<lambda>c. c\<lparr> commentLikeCount := commentLikeCount c + 1 \<rparr>"
  let ?d' = "d\<lparr> commentLikes := commentLikes d @ [(uid, cid)],
                comments := map (\<lambda>c. if commentId c = cid then ?f c else c) (comments d) \<rparr>"
  have r: "likeCommentController (Some uid) p d = (?d', Inr ())"
    using a n ex
    by (simp add: likeCommentController_def transaction_def likeComment_tx_def
          commentLike_create_def comment_update_def)
  have "find (\<lambda>c. commentId c = cid) (map (\<lambda>c. if commentId c = cid then ?f c else c) (comments d))
          = map_option (\<lambda>c. if commentId c = cid then ?f c else c)
              (find (\<lambda>c. commentId c = cid) (comments d))"
    by (rule find_map_same) simp
  with f have "comment_findUnique cid ?d' = Some (?f c)"
    by (auto simp: comment_findUnique_def find_Some_iff)
  with r show "\<exists>d'. likeCommentController (Some uid) p d = (d', Inr ()) \<and>
            comment_findUnique cid d' =
              Some (c\<lparr> commentLikeCount := commentLikeCount c + 1 \<rparr>) \<and>
            commentLikes d' = commentLikes d @ [(uid, cid)]"
    by (intro exI[of _ ?d']) simp
next
  fix rid r
  assume a: "parseId p = Inr rid \<and> distinct (map reviewId (reviews d)) \<and>
        review_findUnique rid d = Some r \<and> reviewDeletedAt r \<noteq> None"
  then have "review_findFirstLive rid d = None"
    unfolding review_findFirstLive_def review_findUnique_def
    using findFirstLive_deleted[of "reviews d" rid r] by simp
  with a show "likeReviewController (Some uid) p d =
                 (d, Inl (ApiError 404 ''RESOURCE_NOT_FOUND''))"
    by (simp add: likeReviewController_def)
qed

text \<open>
  User 9 likes the soft-deleted comment 1: the call succeeds and the deleted comment
  counts one like; liking the soft-deleted review 1 is answered with 404.
\<close>

theorem likeComment_ignores_soft_delete_witness:
  "(\<exists>d'. likeCommentController (Some 9) (Num 1) dbCommentDeleted = (d', Inr ()) \<and>
         map commentLikeCount (comments d') = [1] \<and>
         map commentDeletedAt (comments d') = [Some 40] \<and>
         commentLikes d' = [(9, 1)])
   \<and> likeReviewController (Some 9) (Num 1) dbReviewDeleted =
        (dbReviewDeleted, Inl (ApiError 404 ''RESOURCE_NOT_FOUND''))"
proof -
  let ?c = "\<lparr> commentId = 1, commentReviewId = 1, commentUserId = 8, commentContent = ''Nice'',
              commentLikeCount = 0, commentCreatedAt = 30, commentDeletedAt = Some 40 \<rparr>"
  let ?r = "\<lparr> reviewId = 1, reviewBookId = 1, reviewUserId = 7, reviewRating = 5,
            reviewTitle = None, reviewContent = ''Great'', reviewLikeCount = 0,
            reviewCommentCount = 0, reviewCreatedAt = 10,
            reviewDeletedAt = Some 20 \<rparr>"
  have pid: "parseId (Num 1) = Inr 1" by (simp add: parseId_def isInteger_def)
  have c: "comment_findUnique 1 dbCommentDeleted = Some ?c"
    by (simp add: comment_findUnique_def dbCommentDeleted_def dbReviewed_def emptyDb_def)
  have n: "(9, 1) \<notin> set (commentLikes dbCommentDeleted)"
    by (simp add: dbCommentDeleted_def dbReviewed_def emptyDb_def)
  from likeComment_ignores_soft_delete[of "Num 1" dbCommentDeleted 9] pid c n
  obtain d' where l: "likeCommentController (Some 9) (Num 1) dbCommentDeleted = (d', Inr ())"
    and l2: "commentLikes d' = commentLikes dbCommentDeleted @ [(9, 1)]"
    by force
  have e: "fst (likeCommentController (Some 9) (Num 1) dbCommentDeleted) = d'" using l by simp
  have 1: "map commentLikeCount (comments d') = [1]"
    "map commentDeletedAt (comments d') = [Some 40]"
    unfolding e[symmetric]
    by (simp_all add: likeCommentController_def parseId_def isInteger_def transaction_def
          likeComment_tx_def commentLike_findUnique_def commentLike_create_def
          comment_update_def dbCommentDeleted_def dbReviewed_def emptyDb_def)
  have 2: "commentLikes d' = [(9, 1)]"
    using l2 by (simp add: dbCommentDeleted_def dbReviewed_def emptyDb_def)
  have dist: "distinct (map reviewId (reviews dbReviewDeleted))"
    by (simp add: dbReviewDeleted_def emptyDb_def)
  have r: "review_findUnique 1 dbReviewDeleted = Some ?r"
    by (simp add: review_findUnique_def dbReviewDeleted_def emptyDb_def)
  from likeComment_ignores_soft_delete[of "Num 1" dbReviewDeleted 9] pid dist r
  have 3: "likeReviewController (Some 9) (Num 1) dbReviewDeleted =
        (dbReviewDeleted, Inl (ApiError 404 ''RESOURCE_NOT_FOUND''))" by force
  show ?thesis using l 1 2 3 by simp
qed

section \<open>Counters written outside the mutation's transaction\<close>

text \<open>
  Soft-deleting a liked review removes its like rows, inside the transaction, and leaves
  the review's \<open>likeCount\<close> as it was.
\<close>

lemma deleteReview_keeps_likeCount:
  "\<exists>d'. deleteReviewController (Some 7) (Num 1) 50 dbLiked = (d', Inr (1, 50))
     \<and> reviewLikes d' = [] \<and> map reviewLikeCount (reviews d') = [1]"
  by (simp add: deleteReviewController_def parseId_def isInteger_def review_findUnique_def
        transaction_def deleteReview_tx_def review_update_def reviewLike_deleteMany_def
        recomputeBookRating_def review_aggregate_def book_update_def
        Let_def dbLiked_def dbReviewed_def emptyDb_def)

lemma trim_Nice: "trim ''Nice'' = ''Nice''"
  by (simp add: trim_def isWhiteSpace_def)

text \<open>
  Claim C9, evaluated on the code. Creating a comment on review 1 commits the comment
  row first: the database committed by that statement holds one live comment while the
  review's \<open>commentCount\<close> is still 0, and only the second statement brings it to 1.
  Soft-deleting the comment likewise commits the deletion while \<open>commentCount\<close> is
  still 1, and only the second statement brings it back to 0. Neither controller opens
  a transaction, unlike the like and review controllers.
\<close>

theorem comment_counter_two_commits:
  "(\<exists>d1 c. createComment_afterCreate (Some 8) (Num 1) ''Nice'' 30 dbReviewed = (d1, Inr (1, c))
       \<and> length (filter (\<lambda>x. commentReviewId x = 1 \<and> commentDeletedAt x = None) (comments d1)) = 1
       \<and> map reviewCommentCount (reviews d1) = [0])
   \<and> createCommentController (Some 8) (Num 1) ''Nice'' 30 dbReviewed = (dbCommented, Inr (1, 30))
   \<and> (\<exists>d1 r. deleteComment_afterUpdate (Some 8) (Num 1) 40 dbCommented = (d1, Inr r)
       \<and> length (filter (\<lambda>x. commentReviewId x = 1 \<and> commentDeletedAt x = None) (comments d1)) = 0
       \<and> map reviewCommentCount (reviews d1) = [1])
   \<and> deleteCommentController (Some 8) (Num 1) 40 dbCommented = (dbCommentDeleted, Inr (1, 40))"
  by (simp add: createComment_afterCreate_def createCommentController_def
        deleteComment_afterUpdate_def deleteCommentController_def
        parseId_def isInteger_def trim_Nice review_findFirstLive_def comment_create_def
        comment_findUnique_def comment_update_def review_update_def Let_def
        dbCommented_def dbCommentDeleted_def dbReviewed_def emptyDb_def)

end
